theory Spec2Isabelle
  imports Complex_Main
begin

section \<open>Order item status lifecycle\<close>

text \<open>
  The development follows the order controller, the order model and the Shiprocket webhook
  controller of the backend. Documents are the JavaScript objects the handlers build and
  save; a handler is a function from the stored orders and its request to either a failure
  (the HTTP status and message it answers with, nothing saved) or the order it saves.
\<close>

subsection \<open>Status graph (models/newOrder.model.js, controllers/newOrder.controller.js)\<close>

datatype status_obj = StatusObj (status_value: string) (status_next: "string list")

definition ORDERED :: status_obj where
  "ORDERED = StatusObj ''Ordered'' [''Cancelled'', ''Shipped'']"

definition SHIPPED :: status_obj where
  "SHIPPED = StatusObj ''Shipped'' [''Delivered'']"

definition DELIVERED :: status_obj where
  "DELIVERED = StatusObj ''Delivered'' [''Return Requested'']"

definition CANCELLED :: status_obj where
  "CANCELLED = StatusObj ''Cancelled'' [''Refunded'']"

definition RETURN_REQUESTED :: status_obj where
  "RETURN_REQUESTED =
     StatusObj ''Return Requested'' [''Departed For Returning'', ''Return Cancelled'']"

definition DEPARTED_FOR_RETURNING :: status_obj where
  "DEPARTED_FOR_RETURNING =
     StatusObj ''Departed For Returning'' [''Returned'', ''Return Cancelled'']"

definition RETURNED :: status_obj where
  "RETURNED = StatusObj ''Returned'' [''Refunded'']"

definition RETURN_CANCELLED :: status_obj where
  "RETURN_CANCELLED = StatusObj ''Return Cancelled'' []"

definition REFUNDED :: status_obj where
  "REFUNDED = StatusObj ''Refunded'' []"

text \<open>\<open>Object.values(OrderStatus)\<close>, in declaration order.\<close>

definition OrderStatus_values :: "status_obj list" where
  "OrderStatus_values =
     [ORDERED, SHIPPED, DELIVERED, CANCELLED, RETURN_REQUESTED, DEPARTED_FOR_RETURNING,
      RETURNED, RETURN_CANCELLED, REFUNDED]"

definition ORDER_STATUS_VALUES :: "string list" where
  "ORDER_STATUS_VALUES = map status_value OrderStatus_values"

text \<open>
  \<open>statusMap\<close> is built by \<open>reduce\<close> into the object literal \<open>{}\<close>: its own properties
  are the nine status values. Being an ordinary object, a read of any other key still
  walks to \<open>Object.prototype\<close>, whose members are functions (or, for \<open>__proto__\<close>, the
  prototype object itself): truthy values without an \<open>includes\<close> method.
\<close>

definition statusMap :: "string \<rightharpoonup> string list" where
  "statusMap =
     foldl (\<lambda>m s. m(status_value s \<mapsto> status_next s)) Map.empty OrderStatus_values"

definition Object_prototype_keys :: "string list" where
  "Object_prototype_keys =
     [''constructor'', ''__defineGetter__'', ''__defineSetter__'', ''hasOwnProperty'',
      ''__lookupGetter__'', ''__lookupSetter__'', ''isPrototypeOf'',
      ''propertyIsEnumerable'', ''toString'', ''valueOf'', ''__proto__'',
      ''toLocaleString'']"

datatype 'a js_property = Undefined | Own 'a | Inherited

definition statusMap_get :: "string \<Rightarrow> string list js_property" where
  "statusMap_get k =
     (case statusMap k of
        Some ns \<Rightarrow> Own ns
      | None \<Rightarrow> if k \<in> set Object_prototype_keys then Inherited else Undefined)"

text \<open>
  Errors thrown by the engine and by the document library: a TypeError, and the
  ValidationError with which \<open>save\<close> rejects a document the schema does not admit.
\<close>

datatype js_error = TypeError | ValidationError

text \<open>
  \<open>canTransition\<close>: \<open>if (!statusMap[currentStatus]) return false;
  return statusMap[currentStatus].includes(nextStatus)\<close>. Calling the missing
  \<open>includes\<close> of an inherited member throws a TypeError.
\<close>

definition canTransition :: "string \<Rightarrow> string \<Rightarrow> js_error + bool" where
  "canTransition currentStatus nextStatus =
     (case statusMap_get currentStatus of
        Undefined \<Rightarrow> Inr False
      | Own ns \<Rightarrow> Inr (nextStatus \<in> set ns)
      | Inherited \<Rightarrow> Inl TypeError)"


subsection \<open>Numbers\<close>

text \<open>
  A quantity is a JavaScript number: a finite IEEE double, taken as the rational it stands
  for. \<open>fl\<close> rounds a rational to the nearest double, a tie going to the even
  significand (53 bits; the exponent of the last place is never below \<open>-1074\<close>).
  \<open>bits n\<close> is the length of \<open>n\<close> in binary and \<open>binade x\<close> the exponent of the
  power of two at or below a positive \<open>x\<close>. The handlers only subtract a positive
  number from a larger one, so no result leaves the range of the doubles.
\<close>

fun bits :: "nat \<Rightarrow> nat" where
  "bits n = (if n = 0 then 0 else Suc (bits (n div 2)))"

declare bits.simps [simp del]

definition binade :: "rat \<Rightarrow> int" where
  "binade x =
     (if 1 \<le> x then int (bits (nat \<lfloor>x\<rfloor>)) - 1
      else let k = int (bits (nat \<lfloor>1 / x\<rfloor>)) - 1
           in if x * 2 ^ nat k = 1 then - k else - k - 1)"

definition round_half_even :: "rat \<Rightarrow> int" where
  "round_half_even y =
     (let f = \<lfloor>y\<rfloor>; r = y - of_int f
      in if r < 1 / 2 then f else if 1 / 2 < r then f + 1 else if even f then f else f + 1)"

definition fl :: "rat \<Rightarrow> rat" where
  "fl x =
     (if x = 0 then 0
      else let e = max (binade \<bar>x\<bar>) (- 1022); u = 2 powi (e - 52)
           in of_int (round_half_even (x / u)) * u)"

text \<open>\<open>a - b\<close> and \<open>a + b\<close> on numbers, and \<open>Number.isInteger\<close>.\<close>

definition js_minus :: "rat \<Rightarrow> rat \<Rightarrow> rat" where
  "js_minus a b = fl (a - b)"

definition js_plus :: "rat \<Rightarrow> rat \<Rightarrow> rat" where
  "js_plus a b = fl (a + b)"

definition Number_isInteger :: "rat \<Rightarrow> bool" where
  "Number_isInteger x = (of_int \<lfloor>x\<rfloor> = x)"

definition not_an_integer :: "rat \<Rightarrow> bool" where
  "not_an_integer x = (\<not> Number_isInteger x)"


subsection \<open>Documents (models/newOrder.model.js)\<close>

text \<open>Dates are milliseconds since the epoch; amounts are whole rupees.\<close>

type_synonym date = int

text \<open>
  The values the handlers put into a status or note slot: a string; the whole
  \<open>OrderStatus.RETURN_CANCELLED\<close> descriptor (\<open>cancelReturnRequest\<close>); or a member of
  \<open>Object.prototype\<close>, which a lookup in one of the webhook controller's literal tables
  returns for the member's name. \<open>property_key\<close> is the value as a property key or
  inside a template literal.
\<close>

datatype js_value = Str string | Descriptor status_obj | Member string

text \<open>
  The text of a member of \<open>Object.prototype\<close>: \<open>__proto__\<close> reads as the prototype
  object, \<open>constructor\<close> as the function \<open>Object\<close>, every other name as the native
  function of that name.
\<close>

definition member_text :: "string \<Rightarrow> string" where
  "member_text k =
     (if k = ''__proto__'' then ''[object Object]''
      else ''function '' @ (if k = ''constructor'' then ''Object'' else k) @
           ''() { [native code] }'')"

fun property_key :: "js_value \<Rightarrow> string" where
  "property_key (Str s) = s"
| "property_key (Descriptor d) = ''[object Object]''"
| "property_key (Member k) = member_text k"

text \<open>
  A history entry has the schema's \<open>status\<close>, \<open>note\<close> (here \<open>entry_note\<close>) and \<open>changedAt\<close>;
  \<open>timestamp\<close> is the key \<open>cancelReturnRequest\<close> writes.
\<close>

record status_entry =
  status :: js_value
  entry_note :: "js_value option"
  changedAt :: "date option"
  timestamp :: "date option"

record sr_flags =
  adhocOrderCreated :: bool
  awbAssigned :: bool
  pickupGenerated :: bool

text \<open>A date built by \<open>new Date(text)\<close> from a payload string, or read from the clock.\<close>

datatype stamp = Parsed string | Clock date

text \<open>
  The \<open>tracking_data\<close> of a webhook: the payload's own object, the object built from
  the payload's \<open>scans\<close> (with the tracking URL and the current status), or \<open>{}\<close>.
  Only its \<open>courier_name\<close> is read.
\<close>

datatype td_content = Given string | From_scans "string list" "string option" "string option" | Empty_object

record tracking_data =
  td_courier_name :: "string option"
  td_content :: td_content

text \<open>
  The carrier sub-record of an item: the schema's fields and flags, then the further keys
  the handlers write into it.
\<close>

record shiprocket_data =
  sr_orderId :: "string option"
  sr_shipmentId :: "string option"
  sr_trackingNumber :: "string option"
  sr_courierName :: "string option"
  sr_returnOrderId :: "string option"
  sr_returnShipmentId :: "string option"
  sr_returnTrackingNumber :: "string option"
  sr_flags :: sr_flags
  sr_awbCode :: "string option"
  sr_lastUpdated :: "stamp option"
  sr_status :: "string option"
  sr_reason :: "string option"
  sr_trackingData :: "tracking_data option"
  sr_courierId :: "string option"
  sr_returnCourierName :: "string option"
  sr_returnCourierId :: "string option"
  sr_returnAwbCode :: "string option"
  sr_returnLastUpdated :: "stamp option"
  sr_returnStatus :: "string option"
  sr_returnReason :: "string option"

definition no_flags :: sr_flags where
  "no_flags = \<lparr>adhocOrderCreated = False, awbAssigned = False, pickupGenerated = False\<rparr>"

text \<open>The empty object \<open>{}\<close> as a carrier sub-record.\<close>

definition empty_shiprocket :: shiprocket_data where
  "empty_shiprocket =
     \<lparr>sr_orderId = None, sr_shipmentId = None, sr_trackingNumber = None,
      sr_courierName = None, sr_returnOrderId = None, sr_returnShipmentId = None,
      sr_returnTrackingNumber = None, sr_flags = no_flags, sr_awbCode = None,
      sr_lastUpdated = None, sr_status = None, sr_reason = None, sr_trackingData = None,
      sr_courierId = None, sr_returnCourierName = None, sr_returnCourierId = None,
      sr_returnAwbCode = None,
      sr_returnLastUpdated = None, sr_returnStatus = None, sr_returnReason = None\<rparr>"

record refund_account =
  accountType :: "string option"
  bankName :: "string option"
  accountNumber :: "string option"
  ifscCode :: "string option"
  accountHolderName :: "string option"
  upiId :: "string option"
  phoneNumber :: "string option"

datatype js_number = Num int | NaN

text \<open>
  An order item. \<open>item_id\<close> is the subdocument's \<open>_id\<close>; it is \<open>None\<close> only on a
  plain copy whose \<open>_id\<close> has been deleted. \<open>returnCancelledAt\<close> and
  \<open>returnDepartedAt\<close> are written by the return handlers.
\<close>

record item =
  item_id :: "string option"
  product :: string
  color :: string
  item_size :: string
  quantity :: rat
  amount :: int
  orderStatus :: js_value
  statusHistory :: "status_entry list"
  cancelId :: "string option"
  cancelledAt :: "date option"
  returnId :: "string option"
  returnRequestedAt :: "date option"
  returnedAt :: "date option"
  returnRequestNote :: "string option"
  refundAmount :: "js_number option"
  refundStatus :: "string option"
  refundProcessedAt :: "date option"
  refundRequestedAt :: "date option"
  refundRequestNote :: "string option"
  refundAccountDetails :: "refund_account option"
  refundApprovedAt :: "date option"
  refundApprovedBy :: "string option"
  refundRejectedAt :: "date option"
  refundRejectedBy :: "string option"
  refundRejectionReason :: "string option"
  shippedAt :: "date option"
  deliveredAt :: "date option"
  shiprocket :: "shiprocket_data option"
  returnCancelledAt :: "date option"
  returnDepartedAt :: "date option"

text \<open>
  An order. \<open>order_id\<close> is the document's \<open>_id\<close>, \<open>orderId\<close> the generated order
  number. The schema gives an order no carrier sub-record of its own.
\<close>

record order =
  order_id :: string
  orderId :: string
  user :: string
  items :: "item list"
  shippingInfo :: string
  paymentMethod :: string
  paymentProvider :: "string option"
  transactionId :: "string option"
  paymentStatus :: string
  shippingCharges :: int
  totalAmount :: int
  orderedAt :: date



subsection \<open>Failures and helpers\<close>

text \<open>
  The message of a failed request: a fixed text, a text that ends in the item's status
  (a template literal), one of the composed messages, a caught error's message behind a
  prefix, or the message of an error the engine or the document library threw.
\<close>

datatype message =
    Message string
  | Message_with_status string js_value
  | Return_window_expired int
  | Cannot_transition js_value string
  | Quantity_unavailable rat rat
  | Wrapped string message
  | Thrown js_error

datatype failure = Failure (http_status: nat) (failure_message: message)

text \<open>
  Modelled from the spec: \<open>withTransaction\<close> (utils/withTransaction.js is not among the
  sources). Section 4.2: the whole operation is atomic, either all effects land or none
  do. A body that throws is a failure and carries no order; a body that ends is the order
  it saved.
\<close>

definition withTransaction :: "'a \<Rightarrow> 'a" where
  "withTransaction body = body"

text \<open>
  Modelled from the spec: \<open>createStatusHistoryEntry\<close> (services/orderUtils.js is not
  among the sources). Section 4.2: a history entry is the status, the note and the
  current time.
\<close>

definition createStatusHistoryEntry :: "js_value \<Rightarrow> js_value option \<Rightarrow> date \<Rightarrow> status_entry" where
  "createStatusHistoryEntry st nt now =
     \<lparr>status = st, entry_note = nt, changedAt = Some now, timestamp = None\<rparr>"

text \<open>
  \<open>order.save()\<close> validates the whole document against the schema and rejects with a
  ValidationError. What the schema asks of the values the handlers write:
  \<^item> a status (of an item or of a history entry) is a string of the enum
    \<open>ORDER_STATUS_VALUES\<close>; an object is not cast to a string, and the text a function
    is cast to is in no enum;
  \<^item> a note is a string, or a function (cast to its text); the prototype object is not cast;
  \<^item> \<open>quantity\<close> has \<open>min: 1\<close>; \<open>refundAmount\<close> is a number, which \<open>NaN\<close> is not;
  \<^item> \<open>refundStatus\<close> is of the enum \<open>Object.values(PaymentStatus)\<close>, the account type
    \<open>BANK\<close> or \<open>UPI\<close>, the payment method and provider of their enums;
  \<^item> the product snapshot, the size, the order number and the user are required.
  A handler whose \<open>catch\<close> answers with the error's message answers with the
  ValidationError; \<open>order_save_or\<close> is for a handler that answers with a text of its own.
\<close>

definition PaymentStatus_values :: "string list" where
  "PaymentStatus_values = [''PENDING'', ''PAID'', ''FAILED'', ''REFUNDED'']"

definition PaymentMethod_values :: "string list" where
  "PaymentMethod_values = [''COD'', ''ONLINE'']"

fun status_path :: "js_value \<Rightarrow> bool" where
  "status_path (Str s) = (s \<in> set ORDER_STATUS_VALUES)"
| "status_path (Descriptor d) = False"
| "status_path (Member k) = False"

fun string_path :: "js_value \<Rightarrow> bool" where
  "string_path (Str s) = True"
| "string_path (Descriptor d) = False"
| "string_path (Member k) = (k \<noteq> ''__proto__'')"

definition valid_entry :: "status_entry \<Rightarrow> bool" where
  "valid_entry e =
     (status_path (status e) \<and> (case entry_note e of None \<Rightarrow> True | Some v \<Rightarrow> string_path v))"

definition valid_item :: "item \<Rightarrow> bool" where
  "valid_item it =
     (product it \<noteq> [] \<and> item_size it \<noteq> [] \<and> 1 \<le> quantity it \<and>
      status_path (orderStatus it) \<and> list_all valid_entry (statusHistory it) \<and>
      refundAmount it \<noteq> Some NaN \<and>
      (case refundStatus it of None \<Rightarrow> True | Some s \<Rightarrow> s \<in> set PaymentStatus_values) \<and>
      (case Option.bind (refundAccountDetails it) accountType of
         None \<Rightarrow> True | Some t \<Rightarrow> t \<in> set [''BANK'', ''UPI'']))"

definition valid_order :: "order \<Rightarrow> bool" where
  "valid_order ord =
     (orderId ord \<noteq> [] \<and> user ord \<noteq> [] \<and> paymentMethod ord \<in> set PaymentMethod_values \<and>
      (case paymentProvider ord of None \<Rightarrow> True | Some p \<Rightarrow> p \<in> set [''razorpay'', ''cashfree'']) \<and>
      paymentStatus ord \<in> set PaymentStatus_values \<and> list_all valid_item (items ord))"

definition order_save_or :: "message \<Rightarrow> order \<Rightarrow> failure + order" where
  "order_save_or msg ord = (if valid_order ord then Inr ord else Inl (Failure 500 msg))"

definition order_save :: "order \<Rightarrow> failure + order" where
  "order_save ord = order_save_or (Thrown ValidationError) ord"

text \<open>\<open>Model.findOne\<close> and \<open>Array.prototype.find\<close>: the first match.\<close>

definition findOne :: "('a \<Rightarrow> bool) \<Rightarrow> 'a list \<Rightarrow> 'a option" where
  "findOne P xs = List.find P xs"

text \<open>\<open>Array.prototype.findIndex\<close>; \<open>None\<close> stands for \<open>-1\<close>.\<close>

fun findIndex :: "('a \<Rightarrow> bool) \<Rightarrow> 'a list \<Rightarrow> nat option" where
  "findIndex P [] = None"
| "findIndex P (x # xs) = (if P x then Some 0 else map_option Suc (findIndex P xs))"

definition has_id :: "string \<Rightarrow> item \<Rightarrow> bool" where
  "has_id itemId i = (item_id i = Some itemId)"

text \<open>
  \<open>order.items.push(obj)\<close>: the document array turns the object into a subdocument,
  which gets a new \<open>_id\<close> (\<open>newId\<close>, drawn by the driver) only when the object has none.
\<close>

definition push :: "string \<Rightarrow> item list \<Rightarrow> item \<Rightarrow> item list" where
  "push newId xs obj =
     xs @ [case item_id obj of None \<Rightarrow> obj\<lparr>item_id := Some newId\<rparr> | Some _ \<Rightarrow> obj]"

text \<open>
  \<open>if (!canTransition(item.orderStatus, target)) throw new Error(msg)\<close>, inside the
  handler's \<open>try\<close>: any throw is answered with status 500.
\<close>

definition require_transition ::
  "item \<Rightarrow> string \<Rightarrow> message \<Rightarrow> failure + 'a \<Rightarrow> failure + 'a" where
  "require_transition it target msg continue =
     (case canTransition (property_key (orderStatus it)) target of
        Inl e \<Rightarrow> Inl (Failure 500 (Thrown e))
      | Inr ok \<Rightarrow> if ok then continue else Inl (Failure 500 msg))"

text \<open>\<open>quantity && quantity > 0 ? quantity : item.quantity\<close>.\<close>

definition quantity_or_full :: "rat option \<Rightarrow> item \<Rightarrow> rat" where
  "quantity_or_full q it =
     (case q of None \<Rightarrow> quantity it | Some n \<Rightarrow> if n > 0 then n else quantity it)"

subsection \<open>The model method \<open>updateItemStatus\<close>\<close>

definition updateItemStatus ::
  "order \<Rightarrow> nat \<Rightarrow> string \<Rightarrow> string option \<Rightarrow> date \<Rightarrow> failure + order" where
  "updateItemStatus ord itemIndex newStatus nt now =
     (if itemIndex < length (items ord) then
        let it = items ord ! itemIndex in
        Inr (ord\<lparr>items := (items ord)[itemIndex :=
               it\<lparr>orderStatus := Str newStatus,
                   statusHistory := statusHistory it @
                     [\<lparr>status = Str newStatus, entry_note = map_option Str nt, changedAt = Some now,
                       timestamp = None\<rparr>]\<rparr>]\<rparr>)
      else Inl (Failure 500 (Message ''Item not found in order'')))"



subsection \<open>Cancelling (controllers/newOrder.controller.js)\<close>

text \<open>
  Each handler is followed in two steps: the body of its transaction on the order
  \<open>findOne\<close> returned, and the handler itself (request validation, lookup, body).
\<close>

definition cancelOrderItem_body ::
  "order \<Rightarrow> string \<Rightarrow> rat \<Rightarrow> date \<Rightarrow> string \<Rightarrow> failure + order" where
  "cancelOrderItem_body ord itemId qty now newId =
     (case findIndex (has_id itemId) (items ord) of
        None \<Rightarrow> Inl (Failure 500 (Message ''Item not found in order''))
      | Some itemIndex \<Rightarrow>
          let it = items ord ! itemIndex in
          require_transition it ''Cancelled''
            (Message_with_status ''Cannot cancel item from status: '' (orderStatus it))
            (if qty > quantity it
             then Inl (Failure 500 (Message ''Cancel quantity exceeds ordered quantity''))
             else
               let historyEntry =
                 \<lparr>status = Str ''Cancelled'', entry_note = Some (Str ''Cancelled by user''),
                  changedAt = Some now, timestamp = None\<rparr>
               in
               if qty < quantity it then
                 let cancelledBatch =
                   it\<lparr>item_id := None, quantity := qty, orderStatus := Str ''Cancelled'',
                      statusHistory := statusHistory it @ [historyEntry]\<rparr>
                 in order_save (ord\<lparr>items :=
                      push newId ((items ord)[itemIndex := it\<lparr>quantity := js_minus (quantity it) qty\<rparr>])
                        cancelledBatch\<rparr>)
               else
                 order_save (ord\<lparr>items := (items ord)[itemIndex :=
                      it\<lparr>orderStatus := Str ''Cancelled'',
                         statusHistory := statusHistory it @ [historyEntry]\<rparr>]\<rparr>)))"

definition cancelOrderItem ::
  "order list \<Rightarrow> string \<Rightarrow> string \<Rightarrow> rat \<Rightarrow> date \<Rightarrow> string \<Rightarrow> failure + order" where
  "cancelOrderItem db reqUser itemId qty now newId =
     (if itemId = [] \<or> not_an_integer qty \<or> qty < 1
      then Inl (Failure 400 (Message ''Invalid request''))
      else withTransaction
        (case findOne (\<lambda>ord. list_ex (has_id itemId) (items ord) \<and> user ord = reqUser) db of
           None \<Rightarrow> Inl (Failure 500 (Message ''Item not found''))
         | Some ord \<Rightarrow> cancelOrderItem_body ord itemId qty now newId))"

definition cancelOrderItemByAdmin_body ::
  "order \<Rightarrow> string \<Rightarrow> rat \<Rightarrow> string option \<Rightarrow> date \<Rightarrow> string \<Rightarrow> failure + order" where
  "cancelOrderItemByAdmin_body ord itemId qty nt now newId =
     (case findIndex (has_id itemId) (items ord) of
        None \<Rightarrow> Inl (Failure 500 (Message ''Item not found in order''))
      | Some itemIndex \<Rightarrow>
          let it = items ord ! itemIndex in
          require_transition it ''Cancelled''
            (Message_with_status ''Cannot cancel item from status: '' (orderStatus it))
            (if qty > quantity it
             then Inl (Failure 500 (Message ''Cancel quantity exceeds ordered quantity''))
             else
               let historyEntry =
                 \<lparr>status = Str ''Cancelled'', entry_note = map_option Str nt, changedAt = Some now,
                  timestamp = None\<rparr>
               in
               if qty < quantity it then
                 let cancelledBatch =
                   it\<lparr>item_id := None, quantity := qty, orderStatus := Str ''Cancelled'',
                      statusHistory := statusHistory it @ [historyEntry]\<rparr>
                 in order_save (ord\<lparr>items :=
                      push newId ((items ord)[itemIndex := it\<lparr>quantity := js_minus (quantity it) qty\<rparr>])
                        cancelledBatch\<rparr>)
               else
                 order_save (ord\<lparr>items := (items ord)[itemIndex :=
                      it\<lparr>orderStatus := Str ''Cancelled'',
                         statusHistory := statusHistory it @ [historyEntry]\<rparr>]\<rparr>)))"

definition cancelOrderItemByAdmin ::
  "order list \<Rightarrow> string \<Rightarrow> string \<Rightarrow> rat \<Rightarrow> string option \<Rightarrow> date \<Rightarrow> string \<Rightarrow>
     failure + order" where
  "cancelOrderItemByAdmin db userId itemId qty nt now newId =
     (if itemId = [] \<or> not_an_integer qty \<or> qty < 1
      then Inl (Failure 400 (Message ''Invalid request''))
      else withTransaction
        (case findOne (\<lambda>ord. list_ex (has_id itemId) (items ord) \<and> user ord = userId) db of
           None \<Rightarrow> Inl (Failure 500 (Message ''Item not found''))
         | Some ord \<Rightarrow> cancelOrderItemByAdmin_body ord itemId qty nt now newId))"

subsection \<open>Requesting a return\<close>

text \<open>
  The server's time zone, as the engine uses it: the offset of local time from UTC in
  milliseconds at an instant (\<open>LocalTZA(t, true)\<close>) and at a local time
  (\<open>LocalTZA(t, false)\<close>). A zone with daylight saving has different offsets at
  different instants; \<open>fixed_zone\<close> is a zone without.
\<close>

record zone =
  offset_at_utc :: "int \<Rightarrow> int"
  offset_at_local :: "int \<Rightarrow> int"

definition fixed_zone :: "int \<Rightarrow> zone" where
  "fixed_zone tz = \<lparr>offset_at_utc = (\<lambda>t. tz), offset_at_local = (\<lambda>t. tz)\<rparr>"

text \<open>
  \<open>new Date(t).setHours(0, 0, 0, 0)\<close>: the instant \<open>t\<close> as a local time, that local
  time at the start of its day, and the instant of that local time.
\<close>

definition day_ms :: int where
  "day_ms = 1000 * 60 * 60 * 24"

definition setHours0 :: "zone \<Rightarrow> date \<Rightarrow> date" where
  "setHours0 z t =
     (let localTime = t + offset_at_utc z t;
          midnight = localTime - localTime mod day_ms
      in midnight - offset_at_local z midnight)"

text \<open>\<open>Math.floor((now.setHours(0,0,0,0) - delivered.setHours(0,0,0,0)) / day_ms)\<close>.\<close>

definition daysPassed :: "zone \<Rightarrow> date \<Rightarrow> date \<Rightarrow> int" where
  "daysPassed z now delivered = (setHours0 z now - setHours0 z delivered) div day_ms"

definition returnId_exists :: "order list \<Rightarrow> string \<Rightarrow> bool" where
  "returnId_exists db rid = list_ex (\<lambda>ord. list_ex (\<lambda>i. returnId i = Some rid) (items ord)) db"

text \<open>
  \<open>do { returnId = generateReturnId() } while (await Order.exists(...))\<close>, on the
  identifiers the generator draws (services/orderUtils.js is not among the sources);
  \<open>None\<close> when every draw is taken and the loop has not ended.
\<close>

fun draw_returnId :: "order list \<Rightarrow> string list \<Rightarrow> string option" where
  "draw_returnId db [] = None"
| "draw_returnId db (r # rs) = (if returnId_exists db r then draw_returnId db rs else Some r)"

definition returnOrderItem_body ::
  "order list \<Rightarrow> order \<Rightarrow> string \<Rightarrow> rat \<Rightarrow> string \<Rightarrow> zone \<Rightarrow> date \<Rightarrow> string list \<Rightarrow>
     string \<Rightarrow> (failure + order) option" where
  "returnOrderItem_body db ord itemId qty nt tz now draws newId =
     (case findIndex (has_id itemId) (items ord) of
        None \<Rightarrow> Some (Inl (Failure 500 (Message ''Item not found in order'')))
      | Some itemIndex \<Rightarrow>
          let it = items ord ! itemIndex in
          (case canTransition (property_key (orderStatus it)) ''Return Requested'' of
             Inl e \<Rightarrow> Some (Inl (Failure 500 (Thrown e)))
           | Inr ok \<Rightarrow>
               if \<not> ok then
                 Some (Inl (Failure 500
                   (Message_with_status ''Cannot return item with status: '' (orderStatus it))))
               else if qty > quantity it then
                 Some (Inl (Failure 500 (Message ''Return quantity exceeds ordered quantity'')))
               else
                 (case Option.bind (findOne (\<lambda>s. status s = Str ''Delivered'') (statusHistory it))
                         changedAt of
                    None \<Rightarrow> Some (Inl (Failure 500 (Message ''Delivery date missing in history'')))
                  | Some delivered \<Rightarrow>
                      if daysPassed tz now delivered > 7 then
                        Some (Inl (Failure 500 (Return_window_expired (daysPassed tz now delivered))))
                      else
                        (case draw_returnId db draws of
                           None \<Rightarrow> None
                         | Some rid \<Rightarrow>
                             let historyEntry =
                               \<lparr>status = Str ''Return Requested'', entry_note = Some (Str nt),
                                changedAt = Some now, timestamp = None\<rparr>
                             in
                             if qty < quantity it then
                               let returnedBatch =
                                 it\<lparr>item_id := None, quantity := qty,
                                    orderStatus := Str ''Return Requested'',
                                    returnId := Some rid, returnRequestedAt := Some now,
                                    returnRequestNote := Some nt,
                                    statusHistory := statusHistory it @ [historyEntry]\<rparr>
                               in Some (order_save (ord\<lparr>items :=
                                    push newId
                                      ((items ord)[itemIndex := it\<lparr>quantity := js_minus (quantity it) qty\<rparr>])
                                      returnedBatch\<rparr>))
                             else
                               Some (order_save (ord\<lparr>items := (items ord)[itemIndex :=
                                    it\<lparr>orderStatus := Str ''Return Requested'',
                                       returnId := Some rid, returnRequestedAt := Some now,
                                       returnRequestNote := Some nt,
                                       statusHistory := statusHistory it @ [historyEntry]\<rparr>]\<rparr>))))))"

definition returnOrderItem ::
  "order list \<Rightarrow> string \<Rightarrow> string \<Rightarrow> rat \<Rightarrow> string \<Rightarrow> zone \<Rightarrow> date \<Rightarrow> string list \<Rightarrow>
     string \<Rightarrow> (failure + order) option" where
  "returnOrderItem db reqUser itemId qty nt tz now draws newId =
     (if itemId = [] \<or> not_an_integer qty \<or> qty < 1
      then Some (Inl (Failure 400 (Message ''Invalid item or quantity'')))
      else if nt = [] then Some (Inl (Failure 400 (Message ''Return note is required'')))
      else withTransaction
        (case findOne (\<lambda>ord. list_ex (has_id itemId) (items ord) \<and> user ord = reqUser) db of
           None \<Rightarrow> Some (Inl (Failure 500 (Message ''Item not found'')))
         | Some ord \<Rightarrow> returnOrderItem_body db ord itemId qty nt tz now draws newId))"



subsection \<open>Cancelling a return, by the user\<close>

definition cancelReturnRequest_body ::
  "order \<Rightarrow> string \<Rightarrow> rat \<Rightarrow> date \<Rightarrow> string \<Rightarrow> failure + order" where
  "cancelReturnRequest_body ord itemId qty now newId =
     (case findIndex (has_id itemId) (items ord) of
        None \<Rightarrow> Inl (Failure 500 (Thrown TypeError))
      | Some itemIndex \<Rightarrow>
          let it = items ord ! itemIndex in
          require_transition it ''Return Cancelled''
            (Message_with_status ''Cannot cancel return for item with status: '' (orderStatus it))
            (if qty > quantity it
             then Inl (Failure 500 (Message ''Cancel quantity exceeds return quantity''))
             else
               let historyEntry =
                 \<lparr>status = Descriptor RETURN_CANCELLED,
                  entry_note = Some (Str ''Return cancelled by user''),
                  changedAt = None, timestamp = Some now\<rparr>
               in
               if qty < quantity it then
                 let cancelledBatch =
                   it\<lparr>item_id := None, quantity := qty,
                      orderStatus := Descriptor RETURN_CANCELLED,
                      returnCancelledAt := Some now,
                      statusHistory := statusHistory it @ [historyEntry],
                      returnId := None, returnRequestedAt := None, returnRequestNote := None\<rparr>
                 in order_save (ord\<lparr>items :=
                      push newId ((items ord)[itemIndex := it\<lparr>quantity := js_minus (quantity it) qty\<rparr>])
                        cancelledBatch\<rparr>)
               else
                 order_save (ord\<lparr>items := (items ord)[itemIndex :=
                      it\<lparr>orderStatus := Descriptor RETURN_CANCELLED,
                         returnCancelledAt := Some now,
                         statusHistory := statusHistory it @ [historyEntry],
                         returnId := None, returnRequestedAt := None,
                         returnRequestNote := None\<rparr>]\<rparr>)))"

definition cancelReturnRequest ::
  "order list \<Rightarrow> string \<Rightarrow> string \<Rightarrow> rat \<Rightarrow> date \<Rightarrow> string \<Rightarrow> failure + order" where
  "cancelReturnRequest db reqUser itemId qty now newId =
     (if itemId = [] \<or> qty = 0 \<or> qty < 1
      then Inl (Failure 400 (Message ''Invalid item or quantity''))
      else withTransaction
        (case findOne (\<lambda>ord. list_ex (has_id itemId) (items ord) \<and> user ord = reqUser) db of
           None \<Rightarrow> Inl (Failure 500 (Message ''Item not found''))
         | Some ord \<Rightarrow> cancelReturnRequest_body ord itemId qty now newId))"

subsection \<open>Admin: refund and return-cancel\<close>

definition processRefund_body ::
  "order \<Rightarrow> int \<Rightarrow> rat option \<Rightarrow> string \<Rightarrow> date \<Rightarrow> string \<Rightarrow> failure + order" where
  "processRefund_body ord refundAmt qty itemId now newId =
     (case findIndex (has_id itemId) (items ord) of
        None \<Rightarrow> Inl (Failure 500 (Message ''Item not found in order''))
      | Some itemIndex \<Rightarrow>
          let it = items ord ! itemIndex;
              refundQty = quantity_or_full qty it
          in
          if refundQty > quantity it
          then Inl (Failure 500 (Message ''Refund quantity exceeds item quantity''))
          else
            require_transition it ''Refunded''
              (Message_with_status ''Cannot refund item with status: '' (orderStatus it))
              (let entry =
                 \<lparr>status = Str ''Refunded'', entry_note = Some (Str ''Refund processed by admin''),
                  changedAt = Some now, timestamp = None\<rparr>
               in
               if refundQty < quantity it then
                 let refundedBatch =
                   it\<lparr>quantity := refundQty, orderStatus := Str ''Refunded'',
                      refundAmount := Some (Num refundAmt), refundStatus := Some ''Refunded'',
                      refundProcessedAt := Some now,
                      statusHistory := statusHistory it @ [entry]\<rparr>
                 in order_save (ord\<lparr>items :=
                      push newId
                        ((items ord)[itemIndex := it\<lparr>quantity := js_minus (quantity it) refundQty\<rparr>])
                        refundedBatch\<rparr>)
               else
                 order_save (ord\<lparr>items := (items ord)[itemIndex :=
                      it\<lparr>orderStatus := Str ''Refunded'',
                         refundAmount := Some (Num refundAmt), refundStatus := Some ''Refunded'',
                         refundProcessedAt := Some now,
                         statusHistory := statusHistory it @ [entry]\<rparr>]\<rparr>)))"

definition processRefund ::
  "order list \<Rightarrow> int \<Rightarrow> rat option \<Rightarrow> string \<Rightarrow> date \<Rightarrow> string \<Rightarrow> failure + order" where
  "processRefund db refundAmt qty itemId now newId =
     (if itemId = [] \<or> refundAmt \<le> 0 then Inl (Failure 400 (Message ''Invalid request''))
      else withTransaction
        (case findOne (\<lambda>ord. list_ex (has_id itemId) (items ord)) db of
           None \<Rightarrow> Inl (Failure 500 (Message ''Item not found''))
         | Some ord \<Rightarrow> processRefund_body ord refundAmt qty itemId now newId))"

text \<open>
  \<open>processReturnCancelByAdmin\<close> and \<open>processReturnCancel\<close> run the same transaction
  body; they differ in their validation and lookup.
\<close>

definition processReturnCancel_body ::
  "order \<Rightarrow> string \<Rightarrow> rat option \<Rightarrow> date \<Rightarrow> string \<Rightarrow> failure + order" where
  "processReturnCancel_body ord itemId qty now newId =
     (case findIndex (has_id itemId) (items ord) of
        None \<Rightarrow> Inl (Failure 500 (Message ''Item not found in order''))
      | Some itemIndex \<Rightarrow>
          let it = items ord ! itemIndex;
              cancelQty = quantity_or_full qty it
          in
          if cancelQty > quantity it
          then Inl (Failure 500 (Message ''Cancel quantity exceeds available quantity''))
          else
            require_transition it ''Return Cancelled''
              (Message_with_status ''Cannot cancel return at status: '' (orderStatus it))
              (let entry =
                 \<lparr>status = Str ''Return Cancelled'',
                  entry_note = Some (Str ''Return request cancelled by admin''),
                  changedAt = Some now, timestamp = None\<rparr>
               in
               if cancelQty < quantity it then
                 let cancelledBatch =
                   it\<lparr>quantity := cancelQty, orderStatus := Str ''Return Cancelled'',
                      statusHistory := statusHistory it @ [entry],
                      returnCancelledAt := Some now\<rparr>
                 in order_save (ord\<lparr>items :=
                      push newId
                        ((items ord)[itemIndex := it\<lparr>quantity := js_minus (quantity it) cancelQty\<rparr>])
                        cancelledBatch\<rparr>)
               else
                 order_save (ord\<lparr>items := (items ord)[itemIndex :=
                      it\<lparr>orderStatus := Str ''Return Cancelled'',
                         returnCancelledAt := Some now,
                         statusHistory := statusHistory it @ [entry]\<rparr>]\<rparr>)))"

definition processReturnCancelByAdmin ::
  "order list \<Rightarrow> string \<Rightarrow> rat option \<Rightarrow> date \<Rightarrow> string \<Rightarrow> failure + order" where
  "processReturnCancelByAdmin db itemId qty now newId =
     (if itemId = [] then Inl (Failure 400 (Message ''itemId is required''))
      else withTransaction
        (case findOne (\<lambda>ord. list_ex (has_id itemId) (items ord)) db of
           None \<Rightarrow> Inl (Failure 500 (Message ''Item not found''))
         | Some ord \<Rightarrow> processReturnCancel_body ord itemId qty now newId))"

definition processReturnCancel ::
  "order list \<Rightarrow> string \<Rightarrow> string \<Rightarrow> rat option \<Rightarrow> date \<Rightarrow> string \<Rightarrow> failure + order" where
  "processReturnCancel db userId itemId qty now newId =
     (if userId = [] then Inl (Failure 400 (Message ''Unauthorized''))
      else if itemId = []
      then Inl (Failure 400 (Message ''Select the product to cancel return''))
      else withTransaction
        (case findOne (\<lambda>ord. list_ex (has_id itemId) (items ord) \<and> user ord = userId) db of
           None \<Rightarrow> Inl (Failure 500 (Message ''Item not found''))
         | Some ord \<Rightarrow> processReturnCancel_body ord itemId qty now newId))"

subsection \<open>Admin: return request status\<close>

definition updateReturnRequestStatus ::
  "order list \<Rightarrow> string \<Rightarrow> string \<Rightarrow> string \<Rightarrow> date \<Rightarrow> failure + order" where
  "updateReturnRequestStatus db rid st nt now =
     (if st = [] then Inl (Failure 400 (Message ''Status is required''))
      else withTransaction
        (case findOne (\<lambda>ord. list_ex (\<lambda>i. returnId i = Some rid) (items ord)) db of
           None \<Rightarrow> Inl (Failure 500 (Message ''Return request not found''))
         | Some ord \<Rightarrow>
             (case findIndex (\<lambda>i. returnId i = Some rid) (items ord) of
                None \<Rightarrow> Inl (Failure 500 (Message ''Return item not found''))
              | Some itemIndex \<Rightarrow>
                  let it = items ord ! itemIndex in
                  require_transition it st (Cannot_transition (orderStatus it) st)
                    (let it1 = it\<lparr>orderStatus := Str st,
                           statusHistory := statusHistory it @
                             [\<lparr>status = Str st, entry_note = Some (Str nt), changedAt = Some now,
                               timestamp = None\<rparr>]\<rparr>;
                         it2 = (if st = ''Returned'' then it1\<lparr>returnedAt := Some now\<rparr>
                                else if st = ''Refunded'' then it1\<lparr>refundProcessedAt := Some now\<rparr>
                                else it1)
                     in order_save (ord\<lparr>items := (items ord)[itemIndex := it2]\<rparr>)))))"



subsection \<open>Refund requests\<close>

text \<open>Truthiness of an optional string, and \<open>a || b\<close> on two of them.\<close>

definition truthy :: "string option \<Rightarrow> bool" where
  "truthy v = (case v of None \<Rightarrow> False | Some s \<Rightarrow> s \<noteq> [])"

text \<open>\<open>!v\<close>.\<close>

definition falsy :: "string option \<Rightarrow> bool" where
  "falsy v = (\<not> truthy v)"

definition js_or :: "string option \<Rightarrow> string option \<Rightarrow> string option" where
  "js_or a b = (if truthy a then a else b)"

text \<open>The decimal text of an amount inside a template literal.\<close>

fun show_nat :: "nat \<Rightarrow> string" where
  "show_nat n =
     (if n < 10 then [char_of (48 + n)]
      else show_nat (n div 10) @ [char_of (48 + n mod 10)])"

definition show_int :: "int \<Rightarrow> string" where
  "show_int i = (if i < 0 then CHR ''-'' # show_nat (nat (- i)) else show_nat (nat i))"

text \<open>\<open>!rejectionReason?.trim()\<close>: nothing but white space.\<close>

definition blank :: "string \<Rightarrow> bool" where
  "blank s = list_all (\<lambda>c. c \<in> set [CHR '' '', CHR 0x09, CHR 0x0A, CHR 0x0B, CHR 0x0C, CHR 0x0D]) s"

text \<open>
  \<open>requestRefund\<close>. \<open>item.amount\<close> is a number, so \<open>item.amount.totalAmount\<close> is
  undefined and the computed refund amount is \<open>NaN\<close>.
\<close>

definition requestRefund ::
  "order list \<Rightarrow> string \<Rightarrow> string \<Rightarrow> string \<Rightarrow> rat \<Rightarrow> refund_account option \<Rightarrow> string \<Rightarrow>
     date \<Rightarrow> failure + order" where
  "requestRefund db reqUser ordId itemId qty details nt now =
     (case details of
        None \<Rightarrow> Inl (Failure 400 (Message ''Missing required fields (orderId, itemId, quantity, refundAccountDetails)''))
      | Some acct \<Rightarrow>
          if ordId = [] \<or> itemId = [] \<or> qty = 0
          then Inl (Failure 400 (Message ''Missing required fields (orderId, itemId, quantity, refundAccountDetails)''))
          else if falsy (accountType acct) \<or>
                  (falsy (upiId acct) \<and> falsy (accountNumber acct))
          then Inl (Failure 400 (Message ''Please provide valid account details (UPI ID or Bank Account)''))
          else
            (case findOne (\<lambda>ord. orderId ord = ordId \<and> user ord = reqUser) db of
               None \<Rightarrow> Inl (Failure 404 (Message ''Order not found''))
             | Some ord \<Rightarrow>
                 (case findIndex (has_id itemId) (items ord) of
                    None \<Rightarrow> Inl (Failure 404 (Message ''Order item not found''))
                  | Some k \<Rightarrow>
                      let it = items ord ! k in
                      (case canTransition (property_key (orderStatus it)) ''Refunded'' of
                         Inl e \<Rightarrow>
                           Inl (Failure 500
                             (Message ''Server error while processing refund request''))
                       | Inr ok \<Rightarrow>
                           if \<not> ok
                           then Inl (Failure 400 (Message ''This item is not eligible for refund''))
                           else if refundStatus it = Some ''REFUNDED''
                           then Inl (Failure 400
                                  (Message ''Refund already processed for this item''))
                           else if refundRequestedAt it \<noteq> None
                           then Inl (Failure 400
                                  (Message ''Refund already requested for this item''))
                           else if qty > quantity it
                           then Inl (Failure 400
                                  (Message ''Requested refund quantity exceeds cancelled quantity''))
                           else
                             order_save_or (Message ''Server error while processing refund request'') (ord\<lparr>items := (items ord)[k :=
                               it\<lparr>refundAmount := Some NaN,
                                  refundStatus := Some ''PENDING'',
                                  refundRequestedAt := Some now,
                                  refundRequestNote := Some
                                    (if nt = [] then ''User requested refund for cancelled item''
                                     else nt),
                                  refundAccountDetails := Some acct,
                                  statusHistory := statusHistory it @
                                    [\<lparr>status = orderStatus it,
                                      entry_note = Some
                                        (Str ''Refund requested - awaiting admin approval''),
                                      changedAt = Some now, timestamp = None\<rparr>]\<rparr>]\<rparr>)))))"

text \<open>
  \<open>approveRefundRequest\<close> and \<open>rejectRefundRequest\<close>; \<open>ordKey\<close> and \<open>itemId\<close> are
  the two parts of the composite request identifier, \<open>ordKey\<close> the order's \<open>_id\<close>.
\<close>

definition approveRefundRequest ::
  "order list \<Rightarrow> string \<Rightarrow> string \<Rightarrow> string \<Rightarrow> int \<Rightarrow> date \<Rightarrow> failure + order" where
  "approveRefundRequest db admin ordKey itemId refundAmt now =
     (if refundAmt \<le> 0 then Inl (Failure 400 (Message ''Invalid refund amount''))
      else
        (case findOne (\<lambda>ord. order_id ord = ordKey) db of
           None \<Rightarrow> Inl (Failure 404 (Message ''Order not found''))
         | Some ord \<Rightarrow>
             (case findIndex (has_id itemId) (items ord) of
                None \<Rightarrow> Inl (Failure 404 (Message ''Order item not found''))
              | Some k \<Rightarrow>
                  let it = items ord ! k in
                  if refundRequestedAt it = None \<or> refundStatus it \<noteq> Some ''PENDING''
                  then Inl (Failure 400
                         (Message ''Refund request not found or already processed''))
                  else
                    order_save_or (Message ''Server error'') (ord\<lparr>items := (items ord)[k :=
                      it\<lparr>refundStatus := Some ''REFUNDED'',
                         refundAmount := Some (Num refundAmt),
                         refundApprovedAt := Some now,
                         refundApprovedBy := Some admin,
                         statusHistory := statusHistory it @
                           [\<lparr>status = orderStatus it,
                             entry_note = Some
                               (Str (''Refund approved by admin - Amount: '' @
                                     [CHR 0xE2, CHR 0x82, CHR 0xB9] @ show_int refundAmt)),
                             changedAt = Some now, timestamp = None\<rparr>]\<rparr>]\<rparr>))))"

definition rejectRefundRequest ::
  "order list \<Rightarrow> string \<Rightarrow> string \<Rightarrow> string \<Rightarrow> string \<Rightarrow> date \<Rightarrow> failure + order" where
  "rejectRefundRequest db admin ordKey itemId rejectionReason now =
     (if blank rejectionReason
      then Inl (Failure 400 (Message ''Rejection reason is required''))
      else
        (case findOne (\<lambda>ord. order_id ord = ordKey) db of
           None \<Rightarrow> Inl (Failure 404 (Message ''Order not found''))
         | Some ord \<Rightarrow>
             (case findIndex (has_id itemId) (items ord) of
                None \<Rightarrow> Inl (Failure 404 (Message ''Order item not found''))
              | Some k \<Rightarrow>
                  let it = items ord ! k in
                  if refundRequestedAt it = None \<or> refundStatus it \<noteq> Some ''PENDING''
                  then Inl (Failure 400
                         (Message ''Refund request not found or already processed''))
                  else
                    order_save_or (Message ''Server error'') (ord\<lparr>items := (items ord)[k :=
                      it\<lparr>refundStatus := Some ''REJECTED'',
                         refundRejectedAt := Some now,
                         refundRejectedBy := Some admin,
                         refundRejectionReason := Some rejectionReason,
                         statusHistory := statusHistory it @
                           [\<lparr>status = orderStatus it,
                             entry_note = Some
                               (Str (''Refund rejected by admin - Reason: '' @ rejectionReason)),
                             changedAt = Some now, timestamp = None\<rparr>]\<rparr>]\<rparr>))))"



subsection \<open>Carrier webhooks (controllers/shiprocketWebhook.controller.js)\<close>

text \<open>
  A request body: its top-level string properties by name, its \<open>tracking_data\<close> object
  and its \<open>scans\<close> array, when present.
\<close>

record raw_body =
  field :: "string \<Rightarrow> string option"
  field_tracking_data :: "tracking_data option"
  field_scans :: "string list option"

record webhookData =
  wd_order_id :: "string option"
  wd_shipment_id :: "string option"
  wd_status :: "string option"
  wd_tracking_data :: "tracking_data option"
  wd_courier_name :: "string option"
  wd_awb_code :: "string option"
  wd_tracking_number :: "string option"
  wd_updated_at :: stamp
  wd_reason :: "string option"

definition normalizeShiprocketPayload :: "raw_body \<Rightarrow> date \<Rightarrow> webhookData" where
  "normalizeShiprocketPayload raw now =
     (let st = js_or (field raw ''status'') (js_or (field raw ''current_status'')
                 (js_or (field raw ''shipment_status'') (js_or (field raw ''current_status_id'')
                   (field raw ''shipment_status_id''))))
      in
      \<lparr>wd_order_id =
         js_or (field raw ''order_id'') (js_or (field raw ''external_order_id'')
           (js_or (field raw ''channel_order_id'') (js_or (field raw ''id'')
             (js_or (field raw ''orderid'') None)))),
       wd_shipment_id = js_or (field raw ''shipment_id'') (js_or (field raw ''shipmentid'') None),
       wd_status = st,
       wd_tracking_data =
         (case field_tracking_data raw of
            Some t \<Rightarrow> Some t
          | None \<Rightarrow>
              (case field_scans raw of
                 Some scans \<Rightarrow>
                   Some \<lparr>td_courier_name = None,
                         td_content =
                           From_scans scans (js_or (field raw ''tracking_url'') None)
                             (js_or st None)\<rparr>
               | None \<Rightarrow> None)),
       wd_courier_name = js_or (field raw ''courier_name'') (js_or (field raw ''courier'') None),
       wd_awb_code = js_or (field raw ''awb_code'') (js_or (field raw ''awb'') None),
       wd_tracking_number =
         js_or (field raw ''tracking_number'') (js_or (field raw ''tracking_id'')
           (js_or (field raw ''awb'') (js_or (field raw ''awb_code'') None))),
       wd_updated_at =
         (case js_or (field raw ''updated_at'') (js_or (field raw ''current_timestamp'')
                 (field raw ''etd'')) of
            Some t \<Rightarrow> if t = [] then Clock now else Parsed t
          | None \<Rightarrow> Clock now),
       wd_reason = js_or (field raw ''reason'') (js_or (field raw ''remark'')
                     (js_or (field raw ''comment'') None))\<rparr>)"

definition shiprocket_status_table :: "(string \<times> string) list" where
  "shiprocket_status_table =
     [(''NEW'', ''Ordered''), (''PROCESSING'', ''Ordered''), (''READY_TO_SHIP'', ''Ordered''),
      (''SHIPPED'', ''Shipped''), (''DELIVERED'', ''Delivered''), (''CANCELLED'', ''Cancelled''),
      (''RTO'', ''Returned''), (''RTO_DELIVERED'', ''Returned''),
      (''RTO_CANCELLED'', ''Return Cancelled''), (''LOST'', ''Cancelled''),
      (''DAMAGED'', ''Returned''), (''RETURNED'', ''Returned''), (''REFUNDED'', ''Refunded'')]"

text \<open>
  \<open>statusMap[shiprocketStatus] || OrderStatus.ORDERED.value\<close>, on an object literal: a
  name of \<open>Object.prototype\<close> yields that member.
\<close>

definition mapShiprocketStatus :: "string \<Rightarrow> js_value" where
  "mapShiprocketStatus shiprocketStatus =
     (case map_of shiprocket_status_table shiprocketStatus of
        Some v \<Rightarrow> Str v
      | None \<Rightarrow>
          if shiprocketStatus \<in> set Object_prototype_keys then Member shiprocketStatus
          else Str ''Ordered'')"

definition status_notes :: "tracking_data \<Rightarrow> (string \<times> string) list" where
  "status_notes trackingData =
     [(''NEW'', ''Order received by Shiprocket''), (''PROCESSING'', ''Order is being processed''),
      (''READY_TO_SHIP'', ''Order is ready for shipment''),
      (''SHIPPED'', ''Order shipped via '' @
         (case js_or (td_courier_name trackingData) (Some ''courier'') of
            Some c \<Rightarrow> c | None \<Rightarrow> ''courier'')),
      (''DELIVERED'', ''Order delivered successfully''), (''CANCELLED'', ''Order cancelled''),
      (''RTO'', ''Order returned to origin''), (''RTO_DELIVERED'', ''Return order delivered''),
      (''RTO_CANCELLED'', ''Return order cancelled''), (''LOST'', ''Order lost in transit''),
      (''DAMAGED'', ''Order damaged in transit''), (''RETURNED'', ''Order returned''),
      (''REFUNDED'', ''Order refunded'')]"

definition getStatusNote :: "string \<Rightarrow> tracking_data \<Rightarrow> js_value" where
  "getStatusNote shiprocketStatus trackingData =
     (case map_of (status_notes trackingData) shiprocketStatus of
        Some v \<Rightarrow> Str v
      | None \<Rightarrow>
          if shiprocketStatus \<in> set Object_prototype_keys then Member shiprocketStatus
          else Str ''Status updated'')"

text \<open>The destructuring default \<open>tracking_data = {}\<close>.\<close>

definition tracking_data_or_empty :: "tracking_data option \<Rightarrow> tracking_data" where
  "tracking_data_or_empty t =
     (case t of Some d \<Rightarrow> d | None \<Rightarrow> \<lparr>td_courier_name = None, td_content = Empty_object\<rparr>)"

text \<open>\<open>item.shiprocket?.orderId\<close>.\<close>

definition carrier_orderId :: "item \<Rightarrow> string option" where
  "carrier_orderId it = Option.bind (shiprocket it) sr_orderId"

text \<open>
  The loop \<open>for (const item of itemsToUpdate)\<close>: each target is looked up again by
  \<open>findIndex\<close> on its \<open>_id\<close> and the item found there is updated. Every stored item
  carries an \<open>_id\<close>.
\<close>

definition update_each :: "(item \<Rightarrow> item) \<Rightarrow> item list \<Rightarrow> item list \<Rightarrow> item list" where
  "update_each f itemsToUpdate its =
     foldl (\<lambda>cur target.
              case findIndex (\<lambda>orderItem. item_id orderItem = item_id target) cur of
                None \<Rightarrow> cur
              | Some itemIndex \<Rightarrow> cur[itemIndex := f (cur ! itemIndex)])
       its itemsToUpdate"

text \<open>
  \<open>first_with_id its target\<close> is the index the loop finds for a target;
  \<open>hit itemsToUpdate its k\<close> says that item \<open>k\<close> is the one found for some target.
\<close>

definition first_with_id :: "item list \<Rightarrow> item \<Rightarrow> nat option" where
  "first_with_id its target = findIndex (\<lambda>orderItem. item_id orderItem = item_id target) its"

definition hit :: "item list \<Rightarrow> item list \<Rightarrow> nat \<Rightarrow> bool" where
  "hit itemsToUpdate its k = list_ex (\<lambda>target. first_with_id its target = Some k) itemsToUpdate"

definition shiprocket_or_empty :: "item \<Rightarrow> shiprocket_data" where
  "shiprocket_or_empty it = (case shiprocket it of None \<Rightarrow> empty_shiprocket | Some sr \<Rightarrow> sr)"



text \<open>What \<open>handleShiprocketWebhook\<close> does to one item.\<close>

definition apply_order_event :: "webhookData \<Rightarrow> js_value \<Rightarrow> js_value \<Rightarrow> date \<Rightarrow> item \<Rightarrow> item" where
  "apply_order_event wd newStatus statusNote now orderItem =
     (let it1 =
        (if orderStatus orderItem \<noteq> newStatus then
           let it0 = orderItem\<lparr>orderStatus := newStatus,
                        statusHistory := statusHistory orderItem @
                          [createStatusHistoryEntry newStatus (Some statusNote) now]\<rparr>
           in if newStatus = Str ''Shipped'' then it0\<lparr>shippedAt := Some now\<rparr>
              else if newStatus = Str ''Delivered'' then it0\<lparr>deliveredAt := Some now\<rparr>
              else if newStatus = Str ''Returned'' then it0\<lparr>returnedAt := Some now\<rparr>
              else it0
         else orderItem);
          sr = shiprocket_or_empty it1
      in it1\<lparr>shiprocket := Some
           (sr\<lparr>sr_orderId := wd_order_id wd,
               sr_shipmentId := wd_shipment_id wd,
               sr_trackingNumber := js_or (wd_tracking_number wd) (sr_trackingNumber sr),
               sr_courierName := js_or (wd_courier_name wd) (sr_courierName sr),
               sr_awbCode := js_or (wd_awb_code wd) (sr_awbCode sr),
               sr_lastUpdated := Some (wd_updated_at wd),
               sr_status := wd_status wd,
               sr_reason := js_or (wd_reason wd) (sr_reason sr)\<rparr>)\<rparr>)"

text \<open>
  \<open>handleShiprocketWebhook\<close>: \<open>apiKey\<close> is the \<open>x-api-key\<close> header and \<open>secret\<close> the
  configured secret, either of which may be missing. \<open>rto_awb\<close>, \<open>rto_courier_name\<close>
  and \<open>rto_tracking_number\<close> are not keys of the normalised data, so no such key is
  written.
\<close>

definition handleShiprocketWebhook ::
  "order list \<Rightarrow> string option \<Rightarrow> string option \<Rightarrow> raw_body \<Rightarrow> date \<Rightarrow> failure + order" where
  "handleShiprocketWebhook db apiKey secret raw now =
     (if secret \<noteq> apiKey then Inl (Failure 401 (Message ''Invalid signature''))
      else
        let wd = normalizeShiprocketPayload raw now in
        if falsy (wd_order_id wd) \<or> falsy (wd_status wd)
        then Inl (Failure 400 (Message ''Missing required data''))
        else
          (case findOne (\<lambda>ord. list_ex (\<lambda>i. carrier_orderId i = wd_order_id wd) (items ord)) db of
             None \<Rightarrow> Inl (Failure 404 (Message ''Order not found''))
           | Some ord \<Rightarrow>
               withTransaction
                 (let st = (case wd_status wd of Some t \<Rightarrow> t | None \<Rightarrow> []);
                      newStatus = mapShiprocketStatus st;
                      statusNote = getStatusNote st (tracking_data_or_empty (wd_tracking_data wd));
                      itemsToUpdate = filter (\<lambda>i. carrier_orderId i = wd_order_id wd) (items ord)
                  in
                  if itemsToUpdate = []
                  then Inl (Failure 500 (Message ''No items found for this Shiprocket order''))
                  else order_save (ord\<lparr>items :=
                         update_each (apply_order_event wd newStatus statusNote now)
                           itemsToUpdate (items ord)\<rparr>))))"

text \<open>What the loop of \<open>handleShiprocketReturnWebhook\<close> does to one item.\<close>

definition apply_return_event ::
  "webhookData \<Rightarrow> string option \<Rightarrow> int option \<Rightarrow> js_value \<Rightarrow> js_value \<Rightarrow> date \<Rightarrow> item \<Rightarrow> item" where
  "apply_return_event wd return_order_id refund_amount newStatus statusNote now orderItem =
     (let it0 = orderItem\<lparr>orderStatus := newStatus,
                   statusHistory := statusHistory orderItem @
                     [createStatusHistoryEntry newStatus (Some statusNote) now]\<rparr>;
          it1 = (if newStatus = Str ''Returned'' then it0\<lparr>returnedAt := Some now\<rparr>
                 else if newStatus = Str ''Refunded'' then
                   (case refund_amount of
                      None \<Rightarrow> it0\<lparr>refundProcessedAt := Some now\<rparr>
                    | Some a \<Rightarrow>
                        if a = 0 then it0\<lparr>refundProcessedAt := Some now\<rparr>
                        else it0\<lparr>refundProcessedAt := Some now, refundAmount := Some (Num a)\<rparr>)
                 else it0);
          sr = shiprocket_or_empty it1
      in it1\<lparr>shiprocket := Some
           (sr\<lparr>sr_returnOrderId := return_order_id,
               sr_returnTrackingNumber :=
                 js_or (wd_tracking_number wd) (sr_returnTrackingNumber sr),
               sr_returnCourierName := js_or (wd_courier_name wd) (sr_returnCourierName sr),
               sr_returnAwbCode := js_or (wd_awb_code wd) (sr_returnAwbCode sr),
               sr_returnLastUpdated := Some (wd_updated_at wd),
               sr_returnStatus := wd_status wd,
               sr_returnReason := js_or (wd_reason wd) (sr_returnReason sr)\<rparr>)\<rparr>)"

text \<open>
  \<open>handleShiprocketReturnWebhook\<close>. \<open>signature\<close> is the HMAC header, \<open>hmac_ok\<close> the
  outcome of \<open>verifyWebhookSignature\<close> on it. The handler destructures
  \<open>return_order_id\<close>, \<open>original_order_id\<close> and \<open>refund_amount\<close> from the normalised
  data, which has no such keys: all three are undefined.
\<close>

definition handleShiprocketReturnWebhook ::
  "order list \<Rightarrow> string option \<Rightarrow> string option \<Rightarrow> bool \<Rightarrow> raw_body \<Rightarrow> date \<Rightarrow>
     failure + order" where
  "handleShiprocketReturnWebhook db signature secret hmac_ok raw now =
     (if truthy secret \<and> truthy signature \<and> \<not> hmac_ok
      then Inl (Failure 401 (Message ''Invalid signature''))
      else
        let wd = normalizeShiprocketPayload raw now;
            return_order_id = (None :: string option);
            original_order_id = (None :: string option);
            refund_amount = (None :: int option)
        in
        if falsy return_order_id \<or> falsy (wd_status wd)
        then Inl (Failure 400 (Message ''Missing required data''))
        else
          (case findOne (\<lambda>ord. list_ex (\<lambda>i. carrier_orderId i = original_order_id) (items ord)) db of
             None \<Rightarrow> Inl (Failure 404 (Message ''Order not found''))
           | Some ord \<Rightarrow>
               withTransaction
                 (let st = (case wd_status wd of Some t \<Rightarrow> t | None \<Rightarrow> []);
                      newStatus = mapShiprocketStatus st;
                      statusNote =
                        Str (''Return '' @ property_key
                          (getStatusNote st (tracking_data_or_empty (wd_tracking_data wd))));
                      itemsToUpdate =
                        filter (\<lambda>i. carrier_orderId i = original_order_id) (items ord)
                  in
                  if itemsToUpdate = []
                  then Inl (Failure 500 (Message ''No items found for this order''))
                  else order_save (ord\<lparr>items :=
                         update_each
                           (apply_return_event wd return_order_id refund_amount newStatus
                              statusNote now)
                           itemsToUpdate (items ord)\<rparr>))))"

definition apply_tracking_event :: "webhookData \<Rightarrow> item \<Rightarrow> item" where
  "apply_tracking_event wd orderItem =
     (let sr = shiprocket_or_empty orderItem
      in orderItem\<lparr>shiprocket := Some
           (sr\<lparr>sr_orderId := wd_order_id wd,
               sr_shipmentId := wd_shipment_id wd,
               sr_trackingNumber := js_or (wd_tracking_number wd) (sr_trackingNumber sr),
               sr_courierName := js_or (wd_courier_name wd) (sr_courierName sr),
               sr_lastUpdated := Some (wd_updated_at wd),
               sr_status := js_or (wd_status wd) (sr_status sr),
               sr_trackingData := Some (tracking_data_or_empty (wd_tracking_data wd))\<rparr>)\<rparr>)"

definition handleShiprocketTrackingWebhook ::
  "order list \<Rightarrow> string option \<Rightarrow> string option \<Rightarrow> bool \<Rightarrow> raw_body \<Rightarrow> date \<Rightarrow>
     failure + order" where
  "handleShiprocketTrackingWebhook db signature secret hmac_ok raw now =
     (if truthy secret \<and> truthy signature \<and> \<not> hmac_ok
      then Inl (Failure 401 (Message ''Invalid signature''))
      else
        let wd = normalizeShiprocketPayload raw now in
        if falsy (wd_order_id wd) \<or> falsy (wd_shipment_id wd)
        then Inl (Failure 400 (Message ''Missing required data''))
        else
          (case findOne (\<lambda>ord. list_ex (\<lambda>i. carrier_orderId i = wd_order_id wd) (items ord)) db of
             None \<Rightarrow> Inl (Failure 404 (Message ''Order not found''))
           | Some ord \<Rightarrow>
               withTransaction
                 (let itemsToUpdate = filter (\<lambda>i. carrier_orderId i = wd_order_id wd) (items ord)
                  in
                  if itemsToUpdate = []
                  then Inl (Failure 500 (Message ''No items found for this order''))
                  else order_save (ord\<lparr>items :=
                         update_each (apply_tracking_event wd) itemsToUpdate (items ord)\<rparr>))))"



subsection \<open>Outbound shipment: the three steps (controllers/newOrder.controller.js)\<close>

text \<open>
  The carrier's answer to a call of services/shiprocket.js: the parsed response, or the
  failure object the service returns when the fetch throws.
\<close>

datatype 'a carrier_reply = Reply 'a | Fetch_failed

record adhoc_data =
  ad_order_id :: "string option"
  ad_shipment_id :: "string option"
  ad_courier_name :: "string option"

record awb_fields =
  awb_code :: "string option"
  courier_id :: "string option"

record awb_data =
  awb_assign_status :: int
  awb_response_data :: "awb_fields option"

text \<open>
  \<open>order.shiprocket\<close>: the order schema declares no such path (the carrier sub-record
  belongs to the items), so a loaded order has no such property.
\<close>

definition order_shiprocket :: "order \<Rightarrow> shiprocket_data option" where
  "order_shiprocket ord = None"

text \<open>\<open>forEach\<close> with \<open>findIndex\<close>, for an update that may throw.\<close>

fun update_each_or_throw ::
  "(item \<Rightarrow> js_error + item) \<Rightarrow> item list \<Rightarrow> item list \<Rightarrow> js_error + item list" where
  "update_each_or_throw f [] its = Inr its"
| "update_each_or_throw f (target # targets) its =
     (case findIndex (\<lambda>orderItem. item_id orderItem = item_id target) its of
        None \<Rightarrow> update_each_or_throw f targets its
      | Some itemIndex \<Rightarrow>
          (case f (its ! itemIndex) of
             Inl e \<Rightarrow> Inl e
           | Inr it' \<Rightarrow> update_each_or_throw f targets (its[itemIndex := it'])))"

definition flag_set :: "(sr_flags \<Rightarrow> bool) \<Rightarrow> item \<Rightarrow> bool" where
  "flag_set flag it = (case shiprocket it of None \<Rightarrow> False | Some sr \<Rightarrow> flag (sr_flags sr))"

definition createAdhocOrderStep ::
  "order list \<Rightarrow> string \<Rightarrow> int \<Rightarrow> int \<Rightarrow> int \<Rightarrow> int \<Rightarrow> string option \<Rightarrow> string option \<Rightarrow>
     adhoc_data carrier_reply \<Rightarrow> failure + order" where
  "createAdhocOrderStep db ordId len breadth height weight token address reply =
     (if falsy token then Inl (Failure 400 (Message ''Shiprocket token required''))
      else if len = 0 \<or> breadth = 0 \<or> height = 0 \<or> weight = 0 \<or> address = None
      then Inl (Failure 400
             (Message ''Length, breadth, height, weight, and address are required''))
      else withTransaction
        (case findOne (\<lambda>ord. orderId ord = ordId) db of
           None \<Rightarrow> Inl (Failure 500 (Message ''Order not found''))
         | Some ord \<Rightarrow>
             if (case order_shiprocket ord of
                   None \<Rightarrow> False | Some sr \<Rightarrow> adhocOrderCreated (sr_flags sr))
             then Inl (Failure 500 (Message ''Adhoc order already created for this order''))
             else
               let orderedItems = filter (\<lambda>i. orderStatus i = Str ''Ordered'') (items ord) in
               if orderedItems = []
               then Inl (Failure 500 (Message ''No items available for shipping in this order''))
               else
                 (case reply of
                    Fetch_failed \<Rightarrow>
                      Inl (Failure 500 (Wrapped ''Failed to create adhoc order: ''
                        (Message ''Failed to create ShipRocket order: Failed to create order'')))
                  | Reply d \<Rightarrow>
                      if falsy (ad_order_id d)
                      then Inl (Failure 500 (Wrapped ''Failed to create adhoc order: ''
                             (Message ''Failed to create ShipRocket order: undefined'')))
                      else
                        order_save_or (Wrapped ''Failed to create adhoc order: '' (Thrown ValidationError)) (ord\<lparr>items :=
                          update_each
                            (\<lambda>it. it\<lparr>shiprocket := Some
                               ((shiprocket_or_empty it)
                                  \<lparr>sr_orderId := ad_order_id d,
                                   sr_shipmentId := ad_shipment_id d,
                                   sr_trackingNumber := Some [],
                                   sr_courierName := ad_courier_name d,
                                   sr_returnOrderId := Some [],
                                   sr_returnShipmentId := Some [],
                                   sr_returnTrackingNumber := Some [],
                                   sr_flags := (sr_flags (shiprocket_or_empty it))
                                     \<lparr>adhocOrderCreated := True\<rparr>\<rparr>)\<rparr>)
                            orderedItems (items ord)\<rparr>))))"

definition assignAWBStep ::
  "order list \<Rightarrow> string \<Rightarrow> string option \<Rightarrow> awb_data carrier_reply \<Rightarrow> failure + order" where
  "assignAWBStep db ordId token reply =
     (if falsy token then Inl (Failure 400 (Message ''Shiprocket token required''))
      else withTransaction
        (case findOne (\<lambda>ord. orderId ord = ordId) db of
           None \<Rightarrow> Inl (Failure 500 (Message ''Order not found''))
         | Some ord \<Rightarrow>
             let orderedItemsWithShiprocket =
               filter (\<lambda>i. orderStatus i = Str ''Ordered'' \<and> flag_set adhocOrderCreated i)
                 (items ord)
             in
             if orderedItemsWithShiprocket = []
             then Inl (Failure 500 (Message ''No ordered items with adhoc order created found''))
             else if list_ex (flag_set awbAssigned) orderedItemsWithShiprocket
             then Inl (Failure 500 (Message ''AWB already assigned for this order''))
             else
               (case reply of
                  Fetch_failed \<Rightarrow>
                    Inl (Failure 500 (Wrapped ''Failed to assign AWB: ''
                      (Message ''Failed to assign AWB: Failed to assign AWB'')))
                | Reply d \<Rightarrow>
                    if awb_assign_status d \<noteq> 1
                    then Inl (Failure 500 (Wrapped ''Failed to assign AWB: ''
                           (Message ''Failed to assign AWB: undefined'')))
                    else
                      (case awb_response_data d of
                         None \<Rightarrow>
                           Inl (Failure 500 (Wrapped ''Failed to assign AWB: '' (Thrown TypeError)))
                       | Some awb \<Rightarrow>
                           (case update_each_or_throw
                                   (\<lambda>it. case shiprocket it of
                                      None \<Rightarrow> Inl TypeError
                                    | Some sr \<Rightarrow>
                                        Inr (it\<lparr>shiprocket := Some
                                          (sr\<lparr>sr_trackingNumber := Some
                                                (''https://www.shiprocket.in/shipment-tracking/'' @
                                                 (case awb_code awb of
                                                    None \<Rightarrow> ''undefined'' | Some c \<Rightarrow> c)),
                                              sr_courierId := courier_id awb,
                                              sr_flags := (sr_flags sr)\<lparr>awbAssigned := True\<rparr>\<rparr>)\<rparr>))
                                   orderedItemsWithShiprocket (items ord) of
                              Inl e \<Rightarrow>
                                Inl (Failure 500 (Wrapped ''Failed to assign AWB: '' (Thrown e)))
                            | Inr its \<Rightarrow> order_save_or (Wrapped ''Failed to assign AWB: '' (Thrown ValidationError)) (ord\<lparr>items := its\<rparr>))))))"

text \<open>
  \<open>generatePickupStep\<close>. After the flags, every item still \<open>Ordered\<close> is marked
  \<open>Shipped\<close> and its carrier sub-record is replaced by one read from \<open>order.shiprocket\<close>.
\<close>

definition mark_shipped :: "order \<Rightarrow> date \<Rightarrow> item \<Rightarrow> item" where
  "mark_shipped ord now it =
     (if orderStatus it = Str ''Ordered'' then
        it\<lparr>orderStatus := Str ''Shipped'',
           statusHistory := statusHistory it @
             [createStatusHistoryEntry (Str ''Shipped'')
                (Some (Str ''Order shipped via Shiprocket - All steps completed'')) now],
           shippedAt := Some now,
           shiprocket := Some
             (empty_shiprocket
                \<lparr>sr_orderId := Option.bind (order_shiprocket ord) sr_orderId,
                 sr_shipmentId := Option.bind (order_shiprocket ord) sr_shipmentId,
                 sr_trackingNumber := Option.bind (order_shiprocket ord) sr_trackingNumber,
                 sr_courierName := Option.bind (order_shiprocket ord) sr_courierName\<rparr>)\<rparr>
      else it)"

definition generatePickupStep ::
  "order list \<Rightarrow> string \<Rightarrow> string option \<Rightarrow> unit carrier_reply \<Rightarrow> date \<Rightarrow> failure + order" where
  "generatePickupStep db ordId token reply now =
     (if falsy token then Inl (Failure 400 (Message ''Shiprocket token required''))
      else withTransaction
        (case findOne (\<lambda>ord. orderId ord = ordId) db of
           None \<Rightarrow> Inl (Failure 500 (Message ''Order not found''))
         | Some ord \<Rightarrow>
             let orderedItemsWithAWB =
               filter (\<lambda>i. orderStatus i = Str ''Ordered'' \<and> flag_set awbAssigned i) (items ord)
             in
             if orderedItemsWithAWB = []
             then Inl (Failure 500 (Message ''No ordered items with AWB assigned found''))
             else if list_ex (flag_set pickupGenerated) orderedItemsWithAWB
             then Inl (Failure 500 (Message ''Pickup already generated for this order''))
             else
               (case reply of
                  Fetch_failed \<Rightarrow>
                    Inl (Failure 500 (Wrapped ''Failed to generate pickup: ''
                      (Message ''Failed to generate pickup: Failed to generate pickup'')))
                | Reply u \<Rightarrow>
                    (case update_each_or_throw
                            (\<lambda>it. case shiprocket it of
                               None \<Rightarrow> Inl TypeError
                             | Some sr \<Rightarrow>
                                 Inr (it\<lparr>shiprocket := Some
                                   (sr\<lparr>sr_flags := (sr_flags sr)\<lparr>pickupGenerated := True\<rparr>\<rparr>)\<rparr>))
                            orderedItemsWithAWB (items ord) of
                       Inl e \<Rightarrow>
                         Inl (Failure 500 (Wrapped ''Failed to generate pickup: '' (Thrown e)))
                     | Inr its \<Rightarrow> order_save_or (Wrapped ''Failed to generate pickup: '' (Thrown ValidationError)) (ord\<lparr>items := map (mark_shipped ord now) its\<rparr>)))))"



subsection \<open>Return departure (controllers/newOrder.controller.js)\<close>

text \<open>The data of the carrier's answer to the return order.\<close>

record return_data =
  rd_order_id :: "string option"
  rd_return_order_id :: "string option"
  rd_shipment_id :: "string option"
  rd_return_shipment_id :: "string option"
  rd_tracking_number :: "string option"
  rd_return_tracking_number :: "string option"
  rd_awb_code :: "string option"
  rd_courier_id :: "string option"
  rd_courier_name :: "string option"

definition with_return_data :: "return_data \<Rightarrow> item \<Rightarrow> item" where
  "with_return_data d it =
     it\<lparr>shiprocket := Some
       ((shiprocket_or_empty it)
          \<lparr>sr_returnOrderId := js_or (rd_order_id d) (rd_return_order_id d),
           sr_returnShipmentId := js_or (rd_shipment_id d) (rd_return_shipment_id d),
           sr_returnTrackingNumber := js_or (rd_tracking_number d) (rd_return_tracking_number d),
           sr_returnAwbCode := rd_awb_code d,
           sr_returnCourierId := rd_courier_id d,
           sr_returnCourierName := rd_courier_name d\<rparr>)\<rparr>"

text \<open>
  The loop \<open>for (const item of itemsInOrder)\<close> of \<open>markItemAsDepartedForReturn\<close>, on
  the positions of these items in \<open>order.items\<close>. \<open>entries\<close> are the \<open>{itemId, quantity}\<close>
  objects of the body, \<open>newIds n\<close> the \<open>_id\<close> the driver draws for a subdocument pushed
  at position \<open>n\<close>. The loop returns the items and the positions of the items it changed
  in place: these are the documents among \<open>processedItems\<close>; a split-off batch is in
  \<open>processedItems\<close> as the plain object it was pushed from.
\<close>

fun depart_each ::
  "(string \<times> rat) list \<Rightarrow> string \<Rightarrow> date \<Rightarrow> (nat \<Rightarrow> string) \<Rightarrow> nat list \<Rightarrow> item list \<Rightarrow>
     nat list \<Rightarrow> failure + item list \<times> nat list" where
  "depart_each entries nt now newIds [] its documents = Inr (its, documents)"
| "depart_each entries nt now newIds (k # ks) its documents =
     (let it = its ! k in
      case findOne (\<lambda>entry. Some (fst entry) = item_id it) entries of
        None \<Rightarrow> Inl (Failure 500 (Thrown TypeError))
      | Some requestedItem \<Rightarrow>
          let qty = snd requestedItem in
          require_transition it ''Departed For Returning''
            (Message (''This item cannot be marked as departed for return at this time. '' @
                      ''Please ensure the item is in the correct status.''))
            (if qty > quantity it
             then Inl (Failure 500 (Quantity_unavailable qty (quantity it)))
             else
               let historyEntry =
                 createStatusHistoryEntry (Str ''Departed For Returning'')
                   (Some (Str (if nt = [] then ''Item departed for return'' else nt))) now
               in
               if qty < quantity it then
                 let departedBatch =
                   it\<lparr>item_id := None, quantity := qty,
                      orderStatus := Str ''Departed For Returning'',
                      statusHistory := statusHistory it @ [historyEntry],
                      returnDepartedAt := Some now\<rparr>
                 in depart_each entries nt now newIds ks
                      (push (newIds (length its))
                         (its[k := it\<lparr>quantity := js_minus (quantity it) qty\<rparr>]) departedBatch)
                      documents
               else
                 depart_each entries nt now newIds ks
                   (its[k := it\<lparr>orderStatus := Str ''Departed For Returning'',
                               statusHistory := statusHistory it @ [historyEntry],
                               returnDepartedAt := Some now\<rparr>])
                   (documents @ [k])))"

text \<open>A text between single quotes.\<close>

definition quoted :: "string \<Rightarrow> string" where
  "quoted s = [CHR 0x27] @ s @ [CHR 0x27]"

text \<open>
  \<open>markItemAsDepartedForReturn\<close>. \<open>ordKey\<close> is the order's \<open>_id\<close>. The carrier is
  called after the loop; its data are written to the items changed in place, and a
  failure of the call is logged only.
\<close>

definition markItemAsDepartedForReturn ::
  "order list \<Rightarrow> string \<Rightarrow> (string \<times> rat) list \<Rightarrow> string \<Rightarrow> int \<Rightarrow> int \<Rightarrow> int \<Rightarrow> int \<Rightarrow>
     string option \<Rightarrow> return_data carrier_reply \<Rightarrow> date \<Rightarrow> (nat \<Rightarrow> string) \<Rightarrow> failure + order" where
  "markItemAsDepartedForReturn db ordKey entries nt len breadth height weight token reply now
       newIds =
     (if ordKey = []
      then Inl (Failure 400 (Message ''Order information is missing. Please try again.''))
      else if falsy token
      then Inl (Failure 401 (Message ''Unable to process return. Please contact support.''))
      else if len = 0 \<or> breadth = 0 \<or> height = 0 \<or> weight = 0
      then Inl (Failure 400 (Message ''Package dimensions are required. Please try again.''))
      else if entries = [] \<or> list_ex (\<lambda>entry. snd entry \<le> 0) entries
      then Inl (Failure 400 (Message
             ''Please select valid items with correct quantities to process the return.''))
      else withTransaction
        (case findOne (\<lambda>ord. order_id ord = ordKey) db of
           None \<Rightarrow>
             Inl (Failure 500 (Message
               ''Order not found. Please check the order details and try again.''))
         | Some ord \<Rightarrow>
             let itemsInOrder =
               filter (\<lambda>k. (case item_id (items ord ! k) of
                                None \<Rightarrow> False | Some i \<Rightarrow> i \<in> set (map fst entries)) \<and>
                             orderStatus (items ord ! k) = Str ''Return Requested'')
                 [0..<length (items ord)]
             in
             if itemsInOrder = []
             then Inl (Failure 500 (Message
                    (''No items are currently eligible for return departure. All items '' @
                     ''must be in '' @ quoted ''Return Requested'' @ '' status first.'')))
             else if length itemsInOrder \<noteq> length entries
             then Inl (Failure 500 (Message
                    (''Not all selected items are ready for return departure. Please '' @
                     ''ensure all items are in '' @ quoted ''Return Requested'' @
                     '' status before marking them as departed for return.'')))
             else
               (case depart_each entries nt now newIds itemsInOrder (items ord) [] of
                  Inl failed \<Rightarrow> Inl failed
                | Inr (its, documents) \<Rightarrow>
                    order_save (ord\<lparr>items :=
                      (case reply of
                         Fetch_failed \<Rightarrow> its
                       | Reply d \<Rightarrow>
                           foldl (\<lambda>cur k. cur[k := with_return_data d (cur ! k)]) its
                             documents)\<rparr>))))"



subsection \<open>Requests\<close>

text \<open>
  The environment of one request: the clock, the server's time zone, the return
  identifiers the generator draws and the \<open>_id\<close>s the driver draws for pushed items.
\<close>

record env =
  env_now :: date
  env_zone :: zone
  env_draws :: "string list"
  env_newIds :: "nat \<Rightarrow> string"

text \<open>\<open>order.save()\<close>: the stored document with the order's \<open>_id\<close> is replaced.\<close>

definition save :: "order list \<Rightarrow> order \<Rightarrow> order list" where
  "save db ord' = map (\<lambda>ord. if order_id ord = order_id ord' then ord' else ord) db"

text \<open>
  The requests that end in \<open>order.save()\<close>: the handlers of the order controller and of
  the webhook controller, with the fields of their bodies, parameters and headers and with
  the carrier's answer where they call the carrier.
\<close>

datatype request =
    CancelOrderItem string string rat
  | CancelOrderItemByAdmin string string rat "string option"
  | ReturnOrderItem string string rat string
  | CancelReturnRequest string string rat
  | ProcessRefund int "rat option" string
  | ProcessReturnCancelByAdmin string "rat option"
  | ProcessReturnCancel string string "rat option"
  | MarkItemAsDepartedForReturn string "(string \<times> rat) list" string int int int int
      "string option" "return_data carrier_reply"
  | UpdateReturnRequestStatus string string string
  | RequestRefund string string string rat "refund_account option" string
  | ApproveRefundRequest string string string int
  | RejectRefundRequest string string string string
  | CreateAdhocOrderStep string int int int int "string option" "string option"
      "adhoc_data carrier_reply"
  | AssignAWBStep string "string option" "awb_data carrier_reply"
  | GeneratePickupStep string "string option" "unit carrier_reply"
  | ShiprocketWebhook "string option" "string option" raw_body
  | ShiprocketReturnWebhook "string option" "string option" bool raw_body
  | ShiprocketTrackingWebhook "string option" "string option" bool raw_body

text \<open>
  A request in its environment: the failure or the saved order, or \<open>None\<close> when the
  identifier loop of a return request has not ended.
\<close>

fun perform :: "order list \<Rightarrow> env \<Rightarrow> request \<Rightarrow> (failure + order) option" where
  "perform db e (CancelOrderItem u i q) =
     Some (cancelOrderItem db u i q (env_now e) (env_newIds e 0))"
| "perform db e (CancelOrderItemByAdmin u i q n) =
     Some (cancelOrderItemByAdmin db u i q n (env_now e) (env_newIds e 0))"
| "perform db e (ReturnOrderItem u i q n) =
     returnOrderItem db u i q n (env_zone e) (env_now e) (env_draws e) (env_newIds e 0)"
| "perform db e (CancelReturnRequest u i q) =
     Some (cancelReturnRequest db u i q (env_now e) (env_newIds e 0))"
| "perform db e (ProcessRefund a q i) =
     Some (processRefund db a q i (env_now e) (env_newIds e 0))"
| "perform db e (ProcessReturnCancelByAdmin i q) =
     Some (processReturnCancelByAdmin db i q (env_now e) (env_newIds e 0))"
| "perform db e (ProcessReturnCancel u i q) =
     Some (processReturnCancel db u i q (env_now e) (env_newIds e 0))"
| "perform db e (MarkItemAsDepartedForReturn k entries n l b h w token reply) =
     Some (markItemAsDepartedForReturn db k entries n l b h w token reply (env_now e)
             (env_newIds e))"
| "perform db e (UpdateReturnRequestStatus rid st n) =
     Some (updateReturnRequestStatus db rid st n (env_now e))"
| "perform db e (RequestRefund u k i q details n) =
     Some (requestRefund db u k i q details n (env_now e))"
| "perform db e (ApproveRefundRequest admin k i a) =
     Some (approveRefundRequest db admin k i a (env_now e))"
| "perform db e (RejectRefundRequest admin k i reason) =
     Some (rejectRefundRequest db admin k i reason (env_now e))"
| "perform db e (CreateAdhocOrderStep k l b h w token address reply) =
     Some (createAdhocOrderStep db k l b h w token address reply)"
| "perform db e (AssignAWBStep k token reply) = Some (assignAWBStep db k token reply)"
| "perform db e (GeneratePickupStep k token reply) =
     Some (generatePickupStep db k token reply (env_now e))"
| "perform db e (ShiprocketWebhook apiKey secret raw) =
     Some (handleShiprocketWebhook db apiKey secret raw (env_now e))"
| "perform db e (ShiprocketReturnWebhook signature secret hmac_ok raw) =
     Some (handleShiprocketReturnWebhook db signature secret hmac_ok raw (env_now e))"
| "perform db e (ShiprocketTrackingWebhook signature secret hmac_ok raw) =
     Some (handleShiprocketTrackingWebhook db signature secret hmac_ok raw (env_now e))"

text \<open>
  What a request may do to a history. \<open>keeps it it'\<close>: status and history of \<open>it'\<close> are
  those of \<open>it\<close>. \<open>gains now it it'\<close>: the history of \<open>it'\<close> is the history of \<open>it\<close> and
  one entry more, which has the status of \<open>it'\<close> and the time \<open>now\<close>.
  \<open>history_step now its its'\<close>: every item of \<open>its\<close> is still at its place in \<open>its'\<close> and
  keeps or gains, and every further item of \<open>its'\<close> gains over an item of \<open>its\<close>.
\<close>

definition keeps :: "item \<Rightarrow> item \<Rightarrow> bool" where
  "keeps it it' = (orderStatus it' = orderStatus it \<and> statusHistory it' = statusHistory it)"

definition gains :: "date \<Rightarrow> item \<Rightarrow> item \<Rightarrow> bool" where
  "gains now it it' =
     (statusHistory it' \<noteq> [] \<and> butlast (statusHistory it') = statusHistory it \<and>
      status (last (statusHistory it')) = orderStatus it' \<and>
      changedAt (last (statusHistory it')) = Some now)"

definition history_step :: "date \<Rightarrow> item list \<Rightarrow> item list \<Rightarrow> bool" where
  "history_step now its its' =
     (length its \<le> length its' \<and>
      list_all (\<lambda>k. keeps (its ! k) (its' ! k) \<or> gains now (its ! k) (its' ! k))
        [0..<length its] \<and>
      list_all (\<lambda>k. list_ex (\<lambda>j. gains now (its ! j) (its' ! k)) [0..<length its])
        [length its..<length its'])"

text \<open>
  \<open>chronological now h\<close>: every entry of \<open>h\<close> has its time, the times do not decrease
  along \<open>h\<close>, and none is later than \<open>now\<close>.
\<close>

definition entry_before :: "status_entry \<Rightarrow> status_entry \<Rightarrow> bool" where
  "entry_before a b =
     (case changedAt a of
        None \<Rightarrow> False
      | Some x \<Rightarrow> (case changedAt b of None \<Rightarrow> False | Some y \<Rightarrow> x \<le> y))"

definition chronological :: "date \<Rightarrow> status_entry list \<Rightarrow> bool" where
  "chronological now h =
     (sorted_wrt entry_before h \<and>
      list_all (\<lambda>a. case changedAt a of None \<Rightarrow> False | Some x \<Rightarrow> x \<le> now) h)"

text \<open>
  \<open>outside_webhook\<close>: an item with the fields a carrier webhook may write blanked, so
  that two items agree outside those fields exactly when their images are equal.
\<close>

definition outside_webhook :: "item \<Rightarrow> item" where
  "outside_webhook it =
     it\<lparr>orderStatus := Str [], statusHistory := [], shippedAt := None, deliveredAt := None,
        returnedAt := None, refundProcessedAt := None, refundAmount := None,
        shiprocket := None\<rparr>"

text \<open>A history entry as the schema has it: one of the nine status values and a \<open>changedAt\<close>.\<close>

definition schema_entry :: "status_entry \<Rightarrow> bool" where
  "schema_entry e =
     ((case status e of Str s \<Rightarrow> s \<in> set ORDER_STATUS_VALUES | _ \<Rightarrow> False) \<and> changedAt e \<noteq> None)"

subsection \<open>Sample documents\<close>

definition sample_item :: "string \<Rightarrow> rat \<Rightarrow> string list \<Rightarrow> item" where
  "sample_item iid q path =
     \<lparr>item_id = Some iid, product = ''Linen shirt'', color = ''Black'', item_size = ''M'',
      quantity = q, amount = 999, orderStatus = Str (last path),
      statusHistory = map (\<lambda>s. createStatusHistoryEntry (Str s) None 1000) path,
      cancelId = None, cancelledAt = None, returnId = None, returnRequestedAt = None,
      returnedAt = None, returnRequestNote = None, refundAmount = None, refundStatus = None,
      refundProcessedAt = None, refundRequestedAt = None, refundRequestNote = None,
      refundAccountDetails = None, refundApprovedAt = None, refundApprovedBy = None,
      refundRejectedAt = None, refundRejectedBy = None, refundRejectionReason = None,
      shippedAt = None, deliveredAt = None, shiprocket = None, returnCancelledAt = None,
      returnDepartedAt = None\<rparr>"

definition sample_order :: "item list \<Rightarrow> order" where
  "sample_order its =
     \<lparr>order_id = ''o1'', orderId = ''ORD-1'', user = ''u1'', items = its,
      shippingInfo = ''12 Hill Road'', paymentMethod = ''ONLINE'', paymentProvider = None,
      transactionId = None, paymentStatus = ''PAID'', shippingCharges = 0,
      totalAmount = 2997, orderedAt = 1000\<rparr>"

text \<open>A delivered item, its history three days long at the delivery.\<close>

definition delivered_item :: "string \<Rightarrow> rat \<Rightarrow> date \<Rightarrow> item" where
  "delivered_item iid q delivered =
     (sample_item iid q [''Ordered'', ''Shipped'', ''Delivered''])
       \<lparr>statusHistory :=
          [createStatusHistoryEntry (Str ''Ordered'') None (delivered - 3 * day_ms),
           createStatusHistoryEntry (Str ''Shipped'') None (delivered - 2 * day_ms),
           createStatusHistoryEntry (Str ''Delivered'') None delivered],
        deliveredAt := Some delivered\<rparr>"

text \<open>
  The zone America/New_York around 9 March 2025, when daylight saving time began at
  02:00 local time (07:00 UTC): five hours behind UTC before, four hours after.
\<close>

definition new_york_march_2025 :: zone where
  "new_york_march_2025 =
     \<lparr>offset_at_utc = (\<lambda>t. if t < 1741503600000 then - 18000000 else - 14400000),
      offset_at_local = (\<lambda>t. if t < 1741485600000 then - 18000000 else - 14400000)\<rparr>"


definition sample_body :: "(string \<times> string) list \<Rightarrow> raw_body" where
  "sample_body kvs = \<lparr>field = map_of kvs, field_tracking_data = None, field_scans = None\<rparr>"

section \<open>Properties\<close>

subsection \<open>The status graph\<close>

lemmas status_defs =
  ORDERED_def SHIPPED_def DELIVERED_def CANCELLED_def RETURN_REQUESTED_def
  DEPARTED_FOR_RETURNING_def RETURNED_def RETURN_CANCELLED_def REFUNDED_def
  OrderStatus_values_def

lemma statusMap_eq:
  "statusMap k =
     (if k = ''Refunded'' then Some []
      else if k = ''Return Cancelled'' then Some []
      else if k = ''Returned'' then Some [''Refunded'']
      else if k = ''Departed For Returning'' then Some [''Returned'', ''Return Cancelled'']
      else if k = ''Return Requested''
        then Some [''Departed For Returning'', ''Return Cancelled'']
      else if k = ''Cancelled'' then Some [''Refunded'']
      else if k = ''Delivered'' then Some [''Return Requested'']
      else if k = ''Shipped'' then Some [''Delivered'']
      else if k = ''Ordered'' then Some [''Cancelled'', ''Shipped'']
      else None)"
  by (simp add: statusMap_def status_defs)

lemmas canTransition_eval =
  canTransition_def statusMap_get_def statusMap_eq Object_prototype_keys_def

lemma statusMap_dom: "dom statusMap = set ORDER_STATUS_VALUES"
  unfolding dom_def ORDER_STATUS_VALUES_def
  by (rule set_eqI) (simp add: statusMap_eq status_defs)

lemma statusMap_known:
  "s \<in> set OrderStatus_values \<Longrightarrow> statusMap (status_value s) = Some (status_next s)"
  unfolding OrderStatus_values_def set_simps insert_iff empty_iff
  by (elim disjE FalseE; simp add: statusMap_eq status_defs)

lemma canTransition_known:
  "s \<in> set OrderStatus_values \<Longrightarrow>
     canTransition (status_value s) target = Inr (target \<in> set (status_next s))"
  by (simp add: canTransition_def statusMap_get_def statusMap_known)

lemma canTransition_unknown:
  "current \<notin> set ORDER_STATUS_VALUES \<Longrightarrow> current \<notin> set Object_prototype_keys \<Longrightarrow>
     canTransition current target = Inr False"
  using statusMap_dom by (auto simp: canTransition_def statusMap_get_def split: option.splits)

text \<open>
  C1. The claim: \<open>canTransition\<close> is true exactly on the edges of the nine-node graph and
  returns false, never throwing, for every unknown current status. On the nine statuses
  and on unknown names outside \<open>Object.prototype\<close> this is \<open>canTransition_known\<close> and
  \<open>canTransition_unknown\<close>; for the unknown status \<open>constructor\<close> the lookup finds the
  inherited member and the call throws.
\<close>

theorem canTransition_inherited_key_throws:
  "''constructor'' \<notin> set ORDER_STATUS_VALUES \<and>
   canTransition ''constructor'' ''Shipped'' = Inl TypeError"
  by (simp add: canTransition_eval ORDER_STATUS_VALUES_def status_defs)

subsection \<open>Lists, lookups and pushes\<close>

lemma findIndex_Some:
  "findIndex P xs = Some k \<Longrightarrow> k < length xs \<and> P (xs ! k)"
proof (induction xs arbitrary: k)
  case Nil
  then show ?case by simp
next
  case (Cons x xs)
  then show ?case by (auto split: if_splits)
qed

lemma findOne_Some: "findOne P xs = Some x \<Longrightarrow> x \<in> set xs \<and> P x"
  by (auto simp: findOne_def find_Some_iff)

subsection \<open>Saving\<close>

lemmas body_splits = option.splits sum.splits if_splits

lemma order_save_or_Inr: "order_save_or msg ord = Inr saved \<longleftrightarrow> saved = ord \<and> valid_order ord"
  by (auto simp: order_save_or_def)

lemma order_save_Inr: "order_save ord = Inr saved \<longleftrightarrow> saved = ord \<and> valid_order ord"
  by (simp add: order_save_def order_save_or_Inr)

lemma order_save_valid: "valid_order ord \<Longrightarrow> order_save ord = Inr ord"
  by (simp add: order_save_def order_save_or_def)

lemma order_save_or_valid: "valid_order ord \<Longrightarrow> order_save_or msg ord = Inr ord"
  by (simp add: order_save_or_def)

lemma valid_order_items:
  "valid_order (ord\<lparr>items := its\<rparr>) \<longleftrightarrow>
     valid_order (ord\<lparr>items := []\<rparr>) \<and> list_all valid_item its"
  by (auto simp: valid_order_def)

lemma valid_order_items_of: "valid_order ord \<Longrightarrow> list_all valid_item (items ord)"
  by (simp add: valid_order_def)

lemma valid_order_frame: "valid_order ord \<Longrightarrow> valid_order (ord\<lparr>items := []\<rparr>)"
  by (simp add: valid_order_def)

lemma valid_item_carrier [simp]: "valid_item (it\<lparr>shiprocket := sr\<rparr>) = valid_item it"
  by (simp add: valid_item_def)

lemma valid_items_outside_carrier:
  assumes "map (\<lambda>i. i\<lparr>shiprocket := None\<rparr>) xs = map (\<lambda>i. i\<lparr>shiprocket := None\<rparr>) ys"
  shows "list_all valid_item xs = list_all valid_item ys"
proof -
  have "list_all valid_item zs = list_all valid_item (map (\<lambda>i. i\<lparr>shiprocket := None\<rparr>) zs)" for zs
    by (simp add: list_all_iff)
  from this[of xs] this[of ys] assms show ?thesis by simp
qed

text \<open>The sample documents pass the schema.\<close>

lemmas sample_defs = sample_item_def sample_order_def createStatusHistoryEntry_def

lemmas valid_defs =
  valid_order_def valid_item_def valid_entry_def PaymentMethod_values_def
  PaymentStatus_values_def ORDER_STATUS_VALUES_def status_defs

subsection \<open>The webhook loop\<close>

lemma findIndex_map_cong:
  "map g xs = map g ys \<Longrightarrow> findIndex (\<lambda>x. g x = v) xs = findIndex (\<lambda>x. g x = v) ys"
proof (induction xs arbitrary: ys)
  case Nil
  then show ?case by simp
next
  case (Cons x xs)
  then obtain y ys' where "ys = y # ys'" by (cases ys) auto
  with Cons show ?case by auto
qed

lemma findIndex_first:
  "findIndex P xs = Some k \<Longrightarrow> j < k \<Longrightarrow> \<not> P (xs ! j)"
proof (induction xs arbitrary: k j)
  case Nil
  then show ?case by simp
next
  case (Cons x xs)
  then show ?case by (cases j) (auto split: if_splits)
qed

lemma findIndex_None: "findIndex P xs = None \<longleftrightarrow> (\<forall>x\<in>set xs. \<not> P x)"
  by (induction xs) auto

lemma findIndex_unique:
  "findIndex P xs = Some k \<Longrightarrow> findIndex Q xs = Some k' \<Longrightarrow> (\<And>x. x \<in> set xs \<Longrightarrow> P x = Q x) \<Longrightarrow> k = k'"
proof (induction xs arbitrary: k k')
  case Nil
  then show ?case by simp
next
  case (Cons x xs)
  then show ?case by (auto split: if_splits)
qed

text \<open>
  With an update that keeps \<open>_id\<close> and changes nothing when repeated, the loop applies
  the update once to each item that is the first with the \<open>_id\<close> of some target.
\<close>

lemma update_each_closed_form:
  assumes ids: "\<And>x. item_id (f x) = item_id x" and idem: "\<And>x. f (f x) = f x"
  shows "update_each f ts its = map (\<lambda>k. if hit ts its k then f (its ! k) else its ! k) [0..<length its]"
proof -
  let ?step = "\<lambda>cur target.
      case findIndex (\<lambda>orderItem. item_id orderItem = item_id target) cur of
        None \<Rightarrow> cur
      | Some itemIndex \<Rightarrow> cur[itemIndex := f (cur ! itemIndex)]"
  let ?form = "\<lambda>done. map (\<lambda>k. if hit done its k then f (its ! k) else its ! k) [0..<length its]"
  have ids_form: "map item_id (?form done) = map item_id its" for "done"
    by (rule nth_equalityI) (simp_all add: ids)
  have "foldl ?step (?form done) ts = ?form (done @ ts)" for "done"
  proof (induction ts arbitrary: "done")
    case Nil
    then show ?case by simp
  next
    case (Cons t ts)
    have fi: "findIndex (\<lambda>orderItem. item_id orderItem = item_id t) (?form done) = first_with_id its t"
      unfolding first_with_id_def by (rule findIndex_map_cong[OF ids_form])
    have "?step (?form done) t = ?form (done @ [t])"
    proof (cases "first_with_id its t")
      case None
      then have "hit (done @ [t]) its k = hit done its k" for k
        by (simp add: hit_def)
      with None fi show ?thesis by simp
    next
      case (Some k)
      then have k: "k < length its"
        by (simp add: first_with_id_def findIndex_Some)
      have hk: "hit (done @ [t]) its j = (hit done its j \<or> j = k)" for j
        using Some by (auto simp: hit_def)
      have "(?form done)[k := f (?form done ! k)] = ?form (done @ [t])"
        by (rule nth_equalityI) (use k in \<open>auto simp: hk nth_list_update idem\<close>)
      with Some fi show ?thesis by simp
    qed
    with Cons.IH[of "done @ [t]"] show ?case by simp
  qed
  from this[of "[]"] have "foldl ?step (?form []) ts = ?form ts" by simp
  moreover have "?form [] = its"
    by (rule nth_equalityI) (simp_all add: hit_def)
  ultimately show ?thesis by (simp add: update_each_def)
qed

lemma js_or_idem: "js_or a (js_or a b) = js_or a b"
  by (simp add: js_or_def)

lemma apply_order_event_id [simp]:
  "item_id (apply_order_event wd newStatus statusNote now x) = item_id x"
  by (simp add: apply_order_event_def Let_def)

lemma apply_order_event_status [simp]:
  "orderStatus (apply_order_event wd newStatus statusNote now x) = newStatus"
  by (simp add: apply_order_event_def Let_def)

lemma apply_order_event_history:
  "statusHistory (apply_order_event wd newStatus statusNote now x) =
     (if orderStatus x = newStatus then statusHistory x
      else statusHistory x @ [createStatusHistoryEntry newStatus (Some statusNote) now])"
  by (simp add: apply_order_event_def Let_def)

lemma apply_order_event_carrier [simp]:
  "carrier_orderId (apply_order_event wd newStatus statusNote now x) = wd_order_id wd"
  by (simp add: apply_order_event_def Let_def carrier_orderId_def)

lemma apply_order_event_outside [simp]:
  "outside_webhook (apply_order_event wd newStatus statusNote now x) = outside_webhook x"
  by (simp add: apply_order_event_def Let_def outside_webhook_def)

lemma apply_order_event_valid:
  assumes "valid_item x" and "status_path newStatus" and "string_path statusNote"
  shows "valid_item (apply_order_event wd newStatus statusNote now x)"
  using assms
  by (auto simp: apply_order_event_def Let_def valid_item_def valid_entry_def
      createStatusHistoryEntry_def)

lemma apply_order_event_idem:
  "apply_order_event wd newStatus statusNote now (apply_order_event wd newStatus statusNote now x)
     = apply_order_event wd newStatus statusNote now x"
  by (simp add: apply_order_event_def Let_def shiprocket_or_empty_def js_or_idem)

lemma apply_tracking_event_id [simp]: "item_id (apply_tracking_event wd x) = item_id x"
  by (simp add: apply_tracking_event_def Let_def)

lemma apply_tracking_event_outside [simp]:
  "outside_webhook (apply_tracking_event wd x) = outside_webhook x"
  by (simp add: apply_tracking_event_def Let_def outside_webhook_def)

lemma apply_tracking_event_status [simp]:
  "orderStatus (apply_tracking_event wd x) = orderStatus x"
  "statusHistory (apply_tracking_event wd x) = statusHistory x"
  by (simp_all add: apply_tracking_event_def Let_def)

lemma apply_tracking_event_idem:
  "apply_tracking_event wd (apply_tracking_event wd x) = apply_tracking_event wd x"
  by (simp add: apply_tracking_event_def Let_def shiprocket_or_empty_def js_or_idem)

lemma handleShiprocketWebhook_saved:
  assumes "handleShiprocketWebhook db apiKey secret raw now = Inr saved"
  shows "\<exists>ord st wd. wd = normalizeShiprocketPayload raw now \<and> secret = apiKey \<and>
           truthy (wd_order_id wd) \<and> wd_status wd = Some st \<and>
           findOne (\<lambda>ord. list_ex (\<lambda>i. carrier_orderId i = wd_order_id wd) (items ord)) db = Some ord \<and>
           filter (\<lambda>i. carrier_orderId i = wd_order_id wd) (items ord) \<noteq> [] \<and>
           valid_order saved \<and>
           saved = ord\<lparr>items :=
             update_each
               (apply_order_event wd (mapShiprocketStatus st)
                  (getStatusNote st (tracking_data_or_empty (wd_tracking_data wd))) now)
               (filter (\<lambda>i. carrier_orderId i = wd_order_id wd) (items ord)) (items ord)\<rparr>"
  using assms
  unfolding handleShiprocketWebhook_def Let_def withTransaction_def order_save_def
    order_save_or_def
  by (auto split: body_splits simp: truthy_def falsy_def)

lemma handleShiprocketTrackingWebhook_saved:
  assumes "handleShiprocketTrackingWebhook db signature secret hmac_ok raw now = Inr saved"
  shows "\<exists>ord wd. wd = normalizeShiprocketPayload raw now \<and>
           findOne (\<lambda>ord. list_ex (\<lambda>i. carrier_orderId i = wd_order_id wd) (items ord)) db = Some ord \<and>
           saved = ord\<lparr>items :=
             update_each (apply_tracking_event wd)
               (filter (\<lambda>i. carrier_orderId i = wd_order_id wd) (items ord)) (items ord)\<rparr>"
  using assms
  unfolding handleShiprocketTrackingWebhook_def Let_def withTransaction_def order_save_def
    order_save_or_def
  by (auto split: body_splits)

text \<open>The return handler answers every request with a failure.\<close>

lemma handleShiprocketReturnWebhook_fails:
  "handleShiprocketReturnWebhook db signature secret hmac_ok raw now =
     (if truthy secret \<and> truthy signature \<and> \<not> hmac_ok
      then Inl (Failure 401 (Message ''Invalid signature''))
      else Inl (Failure 400 (Message ''Missing required data'')))"
  by (simp add: handleShiprocketReturnWebhook_def Let_def truthy_def falsy_def)

lemma update_each_outside:
  assumes "\<And>x. item_id (f x) = item_id x" and "\<And>x. f (f x) = f x"
    and "\<And>x. outside_webhook (f x) = outside_webhook x"
  shows "map outside_webhook (update_each f ts its) = map outside_webhook its"
  unfolding update_each_closed_form[OF assms(1,2)]
  by (rule nth_equalityI) (simp_all add: assms(3))

lemma outside_webhook_quantity: "quantity (outside_webhook x) = quantity x"
  by (simp add: outside_webhook_def)

lemma map_outside_quantity:
  assumes "map outside_webhook xs = map outside_webhook ys"
  shows "map quantity xs = map quantity ys"
proof -
  have "map quantity xs = map quantity (map outside_webhook xs)"
    by (simp add: outside_webhook_quantity)
  also have "\<dots> = map quantity (map outside_webhook ys)"
    by (simp only: assms)
  also have "\<dots> = map quantity ys"
    by (simp add: outside_webhook_quantity)
  finally show ?thesis .
qed

text \<open>
  C10. An accepted webhook call of any of the three families changes no item's quantity,
  adds and removes no item, and leaves the order's amounts (and every other field of the
  order outside its items) as they were; in an item it writes only the status, the
  history, the status and refund times and amount, and the carrier sub-record.
\<close>

theorem webhook_frame:
  assumes "handleShiprocketWebhook db apiKey secret raw now = Inr saved \<or>
           handleShiprocketReturnWebhook db signature secret' hmac_ok raw now = Inr saved \<or>
           handleShiprocketTrackingWebhook db signature secret' hmac_ok raw now = Inr saved"
  shows "\<exists>ord. ord \<in> set db \<and> saved = ord\<lparr>items := items saved\<rparr> \<and>
           shippingCharges saved = shippingCharges ord \<and> totalAmount saved = totalAmount ord \<and>
           length (items saved) = length (items ord) \<and>
           map quantity (items saved) = map quantity (items ord) \<and>
           map outside_webhook (items saved) = map outside_webhook (items ord)"
proof -
  from assms handleShiprocketReturnWebhook_fails[of db signature secret' hmac_ok raw now]
  consider (order) "handleShiprocketWebhook db apiKey secret raw now = Inr saved"
    | (tracking) "handleShiprocketTrackingWebhook db signature secret' hmac_ok raw now = Inr saved"
    by (auto split: if_splits)
  then obtain ord f ts where
    ord: "ord \<in> set db" and saved: "saved = ord\<lparr>items := update_each f ts (items ord)\<rparr>" and
    f: "\<And>x. item_id (f x) = item_id x" "\<And>x. f (f x) = f x"
      "\<And>x. outside_webhook (f x) = outside_webhook x"
  proof cases
    case order
    from handleShiprocketWebhook_saved[OF order] obtain ord st wd where
      fnd: "findOne (\<lambda>ord. list_ex (\<lambda>i. carrier_orderId i = wd_order_id wd) (items ord)) db = Some ord"
      and sv: "saved = ord\<lparr>items :=
             update_each
               (apply_order_event wd (mapShiprocketStatus st)
                  (getStatusNote st (tracking_data_or_empty (wd_tracking_data wd))) now)
               (filter (\<lambda>i. carrier_orderId i = wd_order_id wd) (items ord)) (items ord)\<rparr>"
      by blast
    from findOne_Some[OF fnd] have "ord \<in> set db" by simp
    with sv show ?thesis
      by (intro that[of ord "apply_order_event wd (mapShiprocketStatus st)
                  (getStatusNote st (tracking_data_or_empty (wd_tracking_data wd))) now"])
        (simp_all add: apply_order_event_idem)
  next
    case tracking
    from handleShiprocketTrackingWebhook_saved[OF tracking] obtain ord wd where
      fnd: "findOne (\<lambda>ord. list_ex (\<lambda>i. carrier_orderId i = wd_order_id wd) (items ord)) db = Some ord"
      and sv: "saved = ord\<lparr>items :=
             update_each (apply_tracking_event wd)
               (filter (\<lambda>i. carrier_orderId i = wd_order_id wd) (items ord)) (items ord)\<rparr>"
      by blast
    from findOne_Some[OF fnd] have "ord \<in> set db" by simp
    with sv show ?thesis
      by (intro that[of ord "apply_tracking_event wd"])
        (simp_all add: apply_tracking_event_idem)
  qed
  have out: "map outside_webhook (items saved) = map outside_webhook (items ord)"
    using update_each_outside[OF f] by (simp add: saved)
  then have "length (items saved) = length (items ord)"
    by (rule map_eq_imp_length_eq)
  moreover have "map quantity (items saved) = map quantity (items ord)"
    using out by (rule map_outside_quantity)
  moreover have "saved = ord\<lparr>items := items saved\<rparr>"
    "shippingCharges saved = shippingCharges ord" "totalAmount saved = totalAmount ord"
    by (simp_all add: saved)
  ultimately show ?thesis using ord out by blast
qed

subsection \<open>Webhooks on the sample documents\<close>

lemma normalize_sample:
  "st \<noteq> [] \<Longrightarrow>
   normalizeShiprocketPayload (sample_body [(''order_id'', ''SR123''), (''status'', st)]) now
   = \<lparr>wd_order_id = Some ''SR123'', wd_shipment_id = None, wd_status = Some st,
      wd_tracking_data = None, wd_courier_name = None, wd_awb_code = None,
      wd_tracking_number = None, wd_updated_at = Clock now, wd_reason = None\<rparr>"
  by (simp add: normalizeShiprocketPayload_def sample_body_def js_or_def truthy_def)

lemma update_each_single: "update_each f [x] [x] = [f x]"
  by (simp add: update_each_def)

text \<open>
  C2. The claim: on every path, the webhooks included, a status changes from A to B only
  when \<open>canTransition(A, B)\<close> holds. The order-status webhook compares the item's status
  with the mapped status for inequality only: a \<open>NEW\<close> event for a delivered item puts
  the item back to \<open>Ordered\<close> and records it in the history.
\<close>

theorem webhook_moves_status_backwards:
  "\<exists>saved.
     handleShiprocketWebhook
       [sample_order
          [(sample_item ''i1'' 1 [''Ordered'', ''Shipped'', ''Delivered''])
             \<lparr>shiprocket := Some (empty_shiprocket\<lparr>sr_orderId := Some ''SR123''\<rparr>)\<rparr>]]
       (Some ''key'') (Some ''key'')
       (sample_body [(''order_id'', ''SR123''), (''status'', ''NEW'')]) 9000 = Inr saved \<and>
     map orderStatus (items saved) = [Str ''Ordered''] \<and>
     map (map status \<circ> statusHistory) (items saved) =
       [[Str ''Ordered'', Str ''Shipped'', Str ''Delivered'', Str ''Ordered'']] \<and>
     canTransition ''Delivered'' ''Ordered'' = Inr False"
  apply (simp add: handleShiprocketWebhook_def normalize_sample truthy_def falsy_def findOne_def
      carrier_orderId_def withTransaction_def sample_defs empty_shiprocket_def)
  apply (simp add: Let_def update_each_single)
  apply (simp add: order_save_Inr valid_order_def PaymentMethod_values_def
      PaymentStatus_values_def)
  apply (rule conjI)
   apply (rule apply_order_event_valid)
     apply (simp add: valid_defs)
    apply (simp add: mapShiprocketStatus_def shiprocket_status_table_def valid_defs)
   apply (simp add: getStatusNote_def status_notes_def)
  apply (simp add: apply_order_event_history mapShiprocketStatus_def shiprocket_status_table_def)
  apply (simp add: canTransition_eval createStatusHistoryEntry_def)
  done



text \<open>A \<open>DELIVERED\<close> event for a shipped item of three pieces.\<close>

theorem webhook_frame_witness:
  "\<exists>saved.
     handleShiprocketWebhook
       [sample_order
          [(sample_item ''i1'' 3 [''Ordered'', ''Shipped''])
             \<lparr>shiprocket := Some (empty_shiprocket\<lparr>sr_orderId := Some ''SR123''\<rparr>)\<rparr>]]
       (Some ''key'') (Some ''key'')
       (sample_body [(''order_id'', ''SR123''), (''status'', ''DELIVERED'')]) 9000 = Inr saved \<and>
     map quantity (items saved) = [3] \<and> totalAmount saved = 2997 \<and> shippingCharges saved = 0"
proof -
  let ?S = "sample_order
          [(sample_item ''i1'' 3 [''Ordered'', ''Shipped''])
             \<lparr>shiprocket := Some (empty_shiprocket\<lparr>sr_orderId := Some ''SR123''\<rparr>)\<rparr>]"
  let ?B = "sample_body [(''order_id'', ''SR123''), (''status'', ''DELIVERED'')]"
  have "\<exists>saved. handleShiprocketWebhook [?S] (Some ''key'') (Some ''key'') ?B 9000 = Inr saved"
    apply (simp add: handleShiprocketWebhook_def normalize_sample truthy_def falsy_def findOne_def
        carrier_orderId_def withTransaction_def sample_defs empty_shiprocket_def)
    apply (simp add: Let_def update_each_single)
    apply (simp add: order_save_Inr valid_order_def PaymentMethod_values_def
        PaymentStatus_values_def)
    apply (rule apply_order_event_valid)
      apply (simp add: valid_defs)
     apply (simp add: mapShiprocketStatus_def shiprocket_status_table_def valid_defs)
    apply (simp add: getStatusNote_def status_notes_def)
    done
  then obtain saved where
    s: "handleShiprocketWebhook [?S] (Some ''key'') (Some ''key'') ?B 9000 = Inr saved" ..
  have "\<exists>ord. ord \<in> set [?S] \<and> shippingCharges saved = shippingCharges ord \<and>
      totalAmount saved = totalAmount ord \<and> map quantity (items saved) = map quantity (items ord)"
    using webhook_frame[where signature = None and secret' = None and hmac_ok = True,
        OF disjI1[OF s]]
    by (elim exE conjE) (intro exI conjI; assumption)
  then obtain ord where
    "ord \<in> set [?S]" "shippingCharges saved = shippingCharges ord"
    "totalAmount saved = totalAmount ord" "map quantity (items saved) = map quantity (items ord)"
    by (elim exE conjE)
  then have "map quantity (items saved) = [3] \<and> totalAmount saved = 2997 \<and>
      shippingCharges saved = 0"
    by (simp add: sample_defs)
  with s show ?thesis
    by (intro exI[of _ saved] conjI) (elim conjE, assumption)+
qed


subsection \<open>A webhook event received twice\<close>

lemma update_each_length:
  assumes "\<And>x. item_id (f x) = item_id x" and "\<And>x. f (f x) = f x"
  shows "length (update_each f ts its) = length its"
  by (simp add: update_each_closed_form[OF assms])

lemma update_each_nth:
  assumes "\<And>x. item_id (f x) = item_id x" and "\<And>x. f (f x) = f x" and "k < length its"
  shows "update_each f ts its ! k = (if hit ts its k then f (its ! k) else its ! k)"
  using assms(3) by (simp add: update_each_closed_form[OF assms(1,2)])

lemma update_each_ids:
  assumes "\<And>x. item_id (f x) = item_id x" and "\<And>x. f (f x) = f x"
  shows "map item_id (update_each f ts its) = map item_id its"
  unfolding update_each_closed_form[OF assms]
  by (rule nth_equalityI) (simp_all add: assms(1))

text \<open>
  The targets of a second pass are found at indices the first pass has updated, when
  the targets of both passes are the items that satisfy \<open>c\<close> and the update makes \<open>c\<close> true.
\<close>

lemma hit_replay:
  assumes f: "\<And>x. item_id (f x) = item_id x" "\<And>x. f (f x) = f x" and fc: "\<And>x. c (f x)"
    and h2: "hit (filter c (update_each f (filter c its) its)) (update_each f (filter c its) its) k"
  shows "hit (filter c its) its k"
proof -
  let ?its2 = "update_each f (filter c its) its"
  have ids: "map item_id ?its2 = map item_id its"
    by (rule update_each_ids[OF f])
  have fw: "first_with_id ?its2 t = first_with_id its t" for t
    unfolding first_with_id_def by (rule findIndex_map_cong[OF ids])
  from h2 obtain t' where t': "t' \<in> set ?its2" "c t'" "first_with_id its t' = Some k"
    by (auto simp: hit_def list_ex_iff fw)
  from t'(1) obtain j where j: "j < length ?its2" "t' = ?its2 ! j"
    by (auto simp: in_set_conv_nth)
  then have jl: "j < length its"
    by (simp add: update_each_length[OF f])
  show ?thesis
  proof (cases "hit (filter c its) its j")
    case True
    then obtain t where t: "t \<in> set (filter c its)" "first_with_id its t = Some j"
      by (auto simp: hit_def list_ex_iff)
    from findIndex_Some[OF t(2)[unfolded first_with_id_def]]
    have "item_id (its ! j) = item_id t" by simp
    moreover have "item_id t' = item_id (its ! j)"
      using j(2) jl True by (simp add: update_each_nth[OF f] f(1))
    ultimately have "first_with_id its t' = first_with_id its t"
      by (simp add: first_with_id_def)
    with t'(3) t(2) have "k = j" by simp
    with True show ?thesis by simp
  next
    case False
    then have "t' = its ! j"
      using j(2) jl by (simp add: update_each_nth[OF f])
    with t'(2) jl have "t' \<in> set (filter c its)" by simp
    with t'(3) show ?thesis
      by (auto simp: hit_def list_ex_iff)
  qed
qed

lemma update_each_replay:
  assumes f: "\<And>x. item_id (f x) = item_id x" "\<And>x. f (f x) = f x" and fc: "\<And>x. c (f x)"
    and g: "\<And>x. item_id (g x) = item_id x" "\<And>x. g (g x) = g x"
    and k: "k < length its"
  shows "update_each g (filter c (update_each f (filter c its) its))
             (update_each f (filter c its) its) ! k = update_each f (filter c its) its ! k \<or>
         update_each f (filter c its) its ! k = f (its ! k) \<and>
         update_each g (filter c (update_each f (filter c its) its))
             (update_each f (filter c its) its) ! k = g (f (its ! k))"
proof -
  let ?its2 = "update_each f (filter c its) its"
  have k2: "k < length ?its2"
    using k by (simp add: update_each_length[OF f])
  show ?thesis
  proof (cases "hit (filter c ?its2) ?its2 k")
    case True
    from hit_replay[where f = f and c = c and its = its and k = k, OF f fc True] have "hit (filter c its) its k" .
    then have "?its2 ! k = f (its ! k)"
      using k by (simp add: update_each_nth[OF f])
    moreover have "update_each g (filter c ?its2) ?its2 ! k = g (?its2 ! k)"
      using True k2 by (simp add: update_each_nth[OF g])
    ultimately show ?thesis by simp
  next
    case False
    then show ?thesis
      using k2 by (simp add: update_each_nth[OF g])
  qed
qed

lemma findOne_save_any:
  assumes "findOne P db = Some ord" and "order_id saved = order_id ord" and "P saved"
  shows "findOne P (save db saved) = Some saved"
  using assms
proof (induction db)
  case Nil
  then show ?case by (simp add: findOne_def)
next
  case (Cons o1 db)
  then show ?case by (auto simp: findOne_def save_def split: if_splits)
qed

lemma normalize_later:
  "normalizeShiprocketPayload raw now' =
     (normalizeShiprocketPayload raw now)
       \<lparr>wd_updated_at := wd_updated_at (normalizeShiprocketPayload raw now')\<rparr>"
  by (simp add: normalizeShiprocketPayload_def Let_def)

lemma handleShiprocketWebhook_run:
  assumes "secret = apiKey" and "wd = normalizeShiprocketPayload raw now"
    and "truthy (wd_order_id wd)" and "truthy (wd_status wd)" and "wd_status wd = Some st"
    and "findOne (\<lambda>ord. list_ex (\<lambda>i. carrier_orderId i = wd_order_id wd) (items ord)) db = Some ord"
    and "filter (\<lambda>i. carrier_orderId i = wd_order_id wd) (items ord) \<noteq> []"
    and "valid_order (ord\<lparr>items :=
             update_each
               (apply_order_event wd (mapShiprocketStatus st)
                  (getStatusNote st (tracking_data_or_empty (wd_tracking_data wd))) now)
               (filter (\<lambda>i. carrier_orderId i = wd_order_id wd) (items ord)) (items ord)\<rparr>)"
  shows "handleShiprocketWebhook db apiKey secret raw now =
           Inr (ord\<lparr>items :=
             update_each
               (apply_order_event wd (mapShiprocketStatus st)
                  (getStatusNote st (tracking_data_or_empty (wd_tracking_data wd))) now)
               (filter (\<lambda>i. carrier_orderId i = wd_order_id wd) (items ord)) (items ord)\<rparr>)"
  using assms(1) assms(3-8) unfolding assms(2)
  by (simp add: handleShiprocketWebhook_def Let_def withTransaction_def falsy_def
      order_save_valid)

lemma handleShiprocketWebhook_status:
  assumes "handleShiprocketWebhook db apiKey secret raw now = Inr saved"
  shows "truthy (wd_status (normalizeShiprocketPayload raw now))"
  using assms
  by (auto simp: handleShiprocketWebhook_def Let_def falsy_def split: if_splits)

lemma apply_order_event_settled:
  assumes "orderStatus y = newStatus"
  shows "(apply_order_event wd newStatus statusNote now y)\<lparr>shiprocket := None\<rparr> = y\<lparr>shiprocket := None\<rparr>"
  using assms by (simp add: apply_order_event_def Let_def)

text \<open>
  An accepted order-status event, and the same body received again once the order is
  saved: the second call is accepted too, and changes at most the carrier sub-records.
\<close>

lemma handleShiprocketWebhook_replay:
  assumes run: "handleShiprocketWebhook db apiKey secret raw now = Inr saved"
  shows "\<exists>ord st second.
           ord \<in> set db \<and> wd_status (normalizeShiprocketPayload raw now) = Some st \<and>
           length (items saved) = length (items ord) \<and>
           (\<forall>k<length (items ord). orderStatus (items ord ! k) = mapShiprocketStatus st \<longrightarrow>
              orderStatus (items saved ! k) = orderStatus (items ord ! k) \<and>
              statusHistory (items saved ! k) = statusHistory (items ord ! k)) \<and>
           handleShiprocketWebhook (save db saved) apiKey secret raw now' = Inr second \<and>
           map orderStatus (items second) = map orderStatus (items saved) \<and>
           map statusHistory (items second) = map statusHistory (items saved) \<and>
           map (\<lambda>i. i\<lparr>shiprocket := None\<rparr>) (items second) =
             map (\<lambda>i. i\<lparr>shiprocket := None\<rparr>) (items saved) \<and>
           second = saved\<lparr>items := items second\<rparr>"
proof -
  define wd where "wd = normalizeShiprocketPayload raw now"
  define wd' where "wd' = normalizeShiprocketPayload raw now'"
  define c where "c = (\<lambda>i. carrier_orderId i = wd_order_id wd)"
  from handleShiprocketWebhook_saved[OF run] obtain ord st where
    key: "secret = apiKey" and oid: "truthy (wd_order_id wd)" and st: "wd_status wd = Some st"
    and fnd: "findOne (\<lambda>ord. list_ex c (items ord)) db = Some ord"
    and ts: "filter c (items ord) \<noteq> []"
    and valid: "valid_order saved"
    and sv: "saved = ord\<lparr>items :=
             update_each
               (apply_order_event wd (mapShiprocketStatus st)
                  (getStatusNote st (tracking_data_or_empty (wd_tracking_data wd))) now)
               (filter c (items ord)) (items ord)\<rparr>"
    unfolding wd_def c_def by blast
  define ns where "ns = mapShiprocketStatus st"
  define nt where "nt = getStatusNote st (tracking_data_or_empty (wd_tracking_data wd))"
  define f where "f = apply_order_event wd ns nt now"
  define g where "g = apply_order_event wd' ns nt now'"
  define its where "its = items ord"
  define its2 where "its2 = update_each f (filter c its) its"
  have tst: "truthy (wd_status wd)"
    unfolding wd_def by (rule handleShiprocketWebhook_status[OF run])
  have wd': "wd_order_id wd' = wd_order_id wd" "wd_status wd' = wd_status wd"
    "wd_tracking_data wd' = wd_tracking_data wd"
    unfolding wd_def wd'_def by (subst normalize_later[of raw now' now], simp)+
  have f: "\<And>x. item_id (f x) = item_id x" "\<And>x. f (f x) = f x"
    by (simp_all add: f_def apply_order_event_idem)
  have g: "\<And>x. item_id (g x) = item_id x" "\<And>x. g (g x) = g x"
    by (simp_all add: g_def apply_order_event_idem)
  have fc: "\<And>x. c (f x)"
    by (simp add: c_def f_def)
  have saved: "saved = ord\<lparr>items := its2\<rparr>"
    by (simp add: sv its2_def f_def ns_def nt_def its_def)
  have len: "length its2 = length its"
    unfolding its2_def by (rule update_each_length[OF f])
  have nth2: "its2 ! k = (if hit (filter c its) its k then f (its ! k) else its ! k)"
    if "k < length its" for k
    unfolding its2_def by (rule update_each_nth[OF f that])
  text \<open>An item already at the mapped status keeps status and history.\<close>
  have settled: "orderStatus (its2 ! k) = orderStatus (its ! k) \<and>
      statusHistory (its2 ! k) = statusHistory (its ! k)"
    if "k < length its" "orderStatus (its ! k) = ns" for k
    using that by (simp add: nth2 f_def apply_order_event_history)
  text \<open>The saved order is found again, with a target.\<close>
  from ts obtain t where "t \<in> set its" "c t"
    by (auto simp: its_def filter_empty_conv)
  then obtain j where j: "j < length its" "c (its ! j)"
    by (auto simp: in_set_conv_nth)
  then have "c (its2 ! j)"
    by (simp add: nth2 fc)
  moreover have "its2 ! j \<in> set its2"
    using j(1) len by simp
  ultimately have ex2: "list_ex c its2"
    unfolding list_ex_iff by (rule bexI)
  then have ts2: "filter c its2 \<noteq> []"
    by (auto simp: list_ex_iff filter_empty_conv)
  have fnd2: "findOne (\<lambda>ord. list_ex c (items ord)) (save db saved) = Some saved"
    by (rule findOne_save_any[OF fnd]) (simp_all add: saved ex2)
  define second where "second = saved\<lparr>items := update_each g (filter c its2) its2\<rparr>"
  have len3: "length (items second) = length its"
    by (simp add: second_def update_each_length[OF g] len)
  have each: "orderStatus (items second ! k) = orderStatus (its2 ! k) \<and>
      statusHistory (items second ! k) = statusHistory (its2 ! k) \<and>
      (items second ! k)\<lparr>shiprocket := None\<rparr> = (its2 ! k)\<lparr>shiprocket := None\<rparr>"
    if k: "k < length its" for k
  proof -
    from update_each_replay[where f = f and g = g and c = c and its = its and k = k, OF f fc g k]
    consider "items second ! k = its2 ! k"
      | "its2 ! k = f (its ! k)" "items second ! k = g (f (its ! k))"
      unfolding second_def its2_def by auto
    then show ?thesis
    proof cases
      case 1
      then show ?thesis by simp
    next
      case 2
      have "orderStatus (f (its ! k)) = ns"
        by (simp add: f_def)
      then show ?thesis
        unfolding 2 g_def
        by (simp add: apply_order_event_history apply_order_event_settled)
    qed
  qed
  have m1: "map orderStatus (items second) = map orderStatus (items saved)"
    by (rule nth_equalityI) (simp_all add: len3 saved len each)
  have m2: "map statusHistory (items second) = map statusHistory (items saved)"
    by (rule nth_equalityI) (simp_all add: len3 saved len each)
  have m3: "map (\<lambda>i. i\<lparr>shiprocket := None\<rparr>) (items second) =
      map (\<lambda>i. i\<lparr>shiprocket := None\<rparr>) (items saved)"
    by (rule nth_equalityI) (simp_all add: len3 saved len each)
  have m4: "second = saved\<lparr>items := items second\<rparr>"
    by (simp add: second_def)
  have "list_all valid_item (items second) = list_all valid_item (items saved)"
    using m3 by (rule valid_items_outside_carrier)
  with valid have valid2: "valid_order second"
    by (subst m4) (simp add: valid_order_def)
  have run2: "handleShiprocketWebhook (save db saved) apiKey secret raw now' = Inr second"
    unfolding second_def g_def ns_def nt_def
    using handleShiprocketWebhook_run[OF key wd'_def, of st "save db saved" saved]
      oid tst st fnd2 ts2 valid2[unfolded second_def g_def ns_def nt_def]
    by (simp add: wd' c_def saved)
  have a1: "ord \<in> set db"
    using findOne_Some[OF fnd] by simp
  have a2: "wd_status (normalizeShiprocketPayload raw now) = Some st"
    using st by (simp add: wd_def)
  have a3: "length (items saved) = length (items ord)"
    by (simp add: saved len its_def)
  have a4: "\<forall>k<length (items ord). orderStatus (items ord ! k) = mapShiprocketStatus st \<longrightarrow>
              orderStatus (items saved ! k) = orderStatus (items ord ! k) \<and>
              statusHistory (items saved ! k) = statusHistory (items ord ! k)"
    using settled by (simp add: saved its_def ns_def)
  from a1 a2 a3 a4 run2 m1 m2 m3 m4 show ?thesis
    by (intro exI[of _ ord] exI[of _ st] exI[of _ second] conjI)
qed

text \<open>The tracking handler writes the carrier sub-record only.\<close>

lemma handleShiprocketTrackingWebhook_status:
  assumes "handleShiprocketTrackingWebhook db signature secret hmac_ok raw now = Inr saved"
  shows "\<exists>ord. ord \<in> set db \<and> map orderStatus (items saved) = map orderStatus (items ord) \<and>
           map statusHistory (items saved) = map statusHistory (items ord)"
proof -
  from handleShiprocketTrackingWebhook_saved[OF assms] obtain ord wd where
    fnd: "findOne (\<lambda>ord. list_ex (\<lambda>i. carrier_orderId i = wd_order_id wd) (items ord)) db = Some ord"
    and sv: "saved = ord\<lparr>items :=
             update_each (apply_tracking_event wd)
               (filter (\<lambda>i. carrier_orderId i = wd_order_id wd) (items ord)) (items ord)\<rparr>"
    by blast
  have f: "\<And>x. item_id (apply_tracking_event wd x) = item_id x"
    "\<And>x. apply_tracking_event wd (apply_tracking_event wd x) = apply_tracking_event wd x"
    by (simp_all add: apply_tracking_event_idem)
  have "map orderStatus (items saved) = map orderStatus (items ord)"
    unfolding sv by (rule nth_equalityI) (simp_all add: update_each_length[OF f] update_each_nth[OF f])
  moreover have "map statusHistory (items saved) = map statusHistory (items ord)"
    unfolding sv by (rule nth_equalityI) (simp_all add: update_each_length[OF f] update_each_nth[OF f])
  moreover have "ord \<in> set db"
    using findOne_Some[OF fnd] by simp
  ultimately show ?thesis by blast
qed

text \<open>
  C4. For each of the three webhook handlers: an accepted order-status event leaves the
  status and the history of every item that is already at the mapped status as they were;
  the same body received again, at any later time, is accepted and gives the same statuses
  and the same histories, the items differing at most in the carrier sub-record. The
  tracking handler changes no status and no history, and the return handler accepts no
  request.
\<close>

theorem carrier_webhook_idempotent:
  "(\<forall>saved. handleShiprocketWebhook db apiKey secret raw now = Inr saved \<longrightarrow>
      (\<exists>ord st second.
         ord \<in> set db \<and> wd_status (normalizeShiprocketPayload raw now) = Some st \<and>
         length (items saved) = length (items ord) \<and>
         (\<forall>k<length (items ord). orderStatus (items ord ! k) = mapShiprocketStatus st \<longrightarrow>
            orderStatus (items saved ! k) = orderStatus (items ord ! k) \<and>
            statusHistory (items saved ! k) = statusHistory (items ord ! k)) \<and>
         handleShiprocketWebhook (save db saved) apiKey secret raw now' = Inr second \<and>
         map orderStatus (items second) = map orderStatus (items saved) \<and>
         map statusHistory (items second) = map statusHistory (items saved) \<and>
         map (\<lambda>i. i\<lparr>shiprocket := None\<rparr>) (items second) =
           map (\<lambda>i. i\<lparr>shiprocket := None\<rparr>) (items saved) \<and>
         second = saved\<lparr>items := items second\<rparr>)) \<and>
   (\<forall>saved. handleShiprocketTrackingWebhook db signature secret' hmac_ok raw now = Inr saved \<longrightarrow>
      (\<exists>ord. ord \<in> set db \<and> map orderStatus (items saved) = map orderStatus (items ord) \<and>
         map statusHistory (items saved) = map statusHistory (items ord))) \<and>
   (\<forall>saved. handleShiprocketReturnWebhook db signature secret' hmac_ok raw now \<noteq> Inr saved)"
proof (intro conjI allI impI)
  fix saved
  assume "handleShiprocketWebhook db apiKey secret raw now = Inr saved"
  then show "\<exists>ord st second.
         ord \<in> set db \<and> wd_status (normalizeShiprocketPayload raw now) = Some st \<and>
         length (items saved) = length (items ord) \<and>
         (\<forall>k<length (items ord). orderStatus (items ord ! k) = mapShiprocketStatus st \<longrightarrow>
            orderStatus (items saved ! k) = orderStatus (items ord ! k) \<and>
            statusHistory (items saved ! k) = statusHistory (items ord ! k)) \<and>
         handleShiprocketWebhook (save db saved) apiKey secret raw now' = Inr second \<and>
         map orderStatus (items second) = map orderStatus (items saved) \<and>
         map statusHistory (items second) = map statusHistory (items saved) \<and>
         map (\<lambda>i. i\<lparr>shiprocket := None\<rparr>) (items second) =
           map (\<lambda>i. i\<lparr>shiprocket := None\<rparr>) (items saved) \<and>
         second = saved\<lparr>items := items second\<rparr>"
    by (rule handleShiprocketWebhook_replay)
next
  fix saved
  assume "handleShiprocketTrackingWebhook db signature secret' hmac_ok raw now = Inr saved"
  then show "\<exists>ord. ord \<in> set db \<and> map orderStatus (items saved) = map orderStatus (items ord) \<and>
         map statusHistory (items saved) = map statusHistory (items ord)"
    by (rule handleShiprocketTrackingWebhook_status)
next
  fix saved
  show "handleShiprocketReturnWebhook db signature secret' hmac_ok raw now \<noteq> Inr saved"
    by (simp add: handleShiprocketReturnWebhook_fails)
qed

text \<open>A \<open>SHIPPED\<close> event for an ordered item, twice, and a tracking event.\<close>

lemma sample_shipped_event:
  "\<exists>saved.
     handleShiprocketWebhook
       [sample_order
          [(sample_item ''i1'' 1 [''Ordered''])
             \<lparr>shiprocket := Some (empty_shiprocket\<lparr>sr_orderId := Some ''SR123''\<rparr>)\<rparr>]]
       (Some ''key'') (Some ''key'')
       (sample_body [(''order_id'', ''SR123''), (''status'', ''SHIPPED'')]) 9000 = Inr saved \<and>
     map orderStatus (items saved) = [Str ''Shipped''] \<and>
     map (map status \<circ> statusHistory) (items saved) = [[Str ''Ordered'', Str ''Shipped'']]"
  apply (simp add: handleShiprocketWebhook_def normalize_sample truthy_def falsy_def findOne_def
      carrier_orderId_def withTransaction_def sample_defs empty_shiprocket_def)
  apply (simp add: Let_def update_each_single)
  apply (simp add: order_save_Inr valid_order_def PaymentMethod_values_def
      PaymentStatus_values_def)
  apply (rule conjI)
   apply (rule apply_order_event_valid)
     apply (simp add: valid_defs)
    apply (simp add: mapShiprocketStatus_def shiprocket_status_table_def valid_defs)
   apply (simp add: getStatusNote_def status_notes_def)
  apply (simp add: apply_order_event_history mapShiprocketStatus_def shiprocket_status_table_def)
  apply (simp add: createStatusHistoryEntry_def)
  done

lemma sample_tracking_event:
  "\<exists>tracked.
     handleShiprocketTrackingWebhook
       [sample_order
          [(sample_item ''i1'' 1 [''Ordered''])
             \<lparr>shiprocket := Some (empty_shiprocket\<lparr>sr_orderId := Some ''SR123''\<rparr>)\<rparr>]]
       None None True
       (sample_body [(''order_id'', ''SR123''), (''shipment_id'', ''SH1'')]) 9000 = Inr tracked"
  apply (simp add: handleShiprocketTrackingWebhook_def truthy_def falsy_def)
  apply (simp add: normalizeShiprocketPayload_def sample_body_def js_or_def truthy_def)
  apply (simp add: findOne_def carrier_orderId_def withTransaction_def sample_defs
      empty_shiprocket_def)
  apply (simp add: Let_def update_each_single order_save_Inr)
  apply (simp add: apply_tracking_event_def Let_def valid_defs)
  done

theorem carrier_webhook_idempotent_witness:
  "\<exists>saved second tracked.
     handleShiprocketWebhook
       [sample_order
          [(sample_item ''i1'' 1 [''Ordered''])
             \<lparr>shiprocket := Some (empty_shiprocket\<lparr>sr_orderId := Some ''SR123''\<rparr>)\<rparr>]]
       (Some ''key'') (Some ''key'')
       (sample_body [(''order_id'', ''SR123''), (''status'', ''SHIPPED'')]) 9000 = Inr saved \<and>
     handleShiprocketWebhook
       (save [sample_order
          [(sample_item ''i1'' 1 [''Ordered''])
             \<lparr>shiprocket := Some (empty_shiprocket\<lparr>sr_orderId := Some ''SR123''\<rparr>)\<rparr>]] saved)
       (Some ''key'') (Some ''key'')
       (sample_body [(''order_id'', ''SR123''), (''status'', ''SHIPPED'')]) 9500 = Inr second \<and>
     map orderStatus (items second) = [Str ''Shipped''] \<and>
     map (map status) (map statusHistory (items second)) = [[Str ''Ordered'', Str ''Shipped'']] \<and>
     handleShiprocketTrackingWebhook
       [sample_order
          [(sample_item ''i1'' 1 [''Ordered''])
             \<lparr>shiprocket := Some (empty_shiprocket\<lparr>sr_orderId := Some ''SR123''\<rparr>)\<rparr>]]
       None None True
       (sample_body [(''order_id'', ''SR123''), (''shipment_id'', ''SH1'')]) 9000 = Inr tracked \<and>
     map orderStatus (items tracked) = [Str ''Ordered'']"
proof -
  let ?S = "sample_order
          [(sample_item ''i1'' 1 [''Ordered''])
             \<lparr>shiprocket := Some (empty_shiprocket\<lparr>sr_orderId := Some ''SR123''\<rparr>)\<rparr>]"
  let ?B = "sample_body [(''order_id'', ''SR123''), (''status'', ''SHIPPED'')]"
  let ?T = "sample_body [(''order_id'', ''SR123''), (''shipment_id'', ''SH1'')]"
  from sample_shipped_event obtain saved where
    s: "handleShiprocketWebhook [?S] (Some ''key'') (Some ''key'') ?B 9000 = Inr saved"
    and s1: "map orderStatus (items saved) = [Str ''Shipped'']"
    and s2: "map (map status \<circ> statusHistory) (items saved) = [[Str ''Ordered'', Str ''Shipped'']]"
    by (elim exE conjE)
  have "\<exists>second.
      handleShiprocketWebhook (save [?S] saved) (Some ''key'') (Some ''key'') ?B 9500 = Inr second \<and>
      map orderStatus (items second) = map orderStatus (items saved) \<and>
      map statusHistory (items second) = map statusHistory (items saved)"
    using carrier_webhook_idempotent[where db = "[?S]" and apiKey = "Some ''key''"
        and secret = "Some ''key''" and raw = ?B and now = 9000 and now' = 9500
        and signature = None and secret' = None and hmac_ok = True,
        THEN conjunct1, THEN spec, THEN mp, OF s]
    by (elim exE conjE) (intro exI conjI; assumption)
  then obtain second where
    r: "handleShiprocketWebhook (save [?S] saved) (Some ''key'') (Some ''key'') ?B 9500 = Inr second"
    and r1: "map orderStatus (items second) = map orderStatus (items saved)"
    and r2: "map statusHistory (items second) = map statusHistory (items saved)"
    by (elim exE conjE)
  have q1: "map orderStatus (items second) = [Str ''Shipped'']"
    using r1 s1 by simp
  have q2: "map (map status) (map statusHistory (items second)) = [[Str ''Ordered'', Str ''Shipped'']]"
    using s2 by (simp add: r2)
  from sample_tracking_event obtain tracked where
    t: "handleShiprocketTrackingWebhook [?S] None None True ?T 9000 = Inr tracked" ..
  have "\<exists>ord. ord \<in> set [?S] \<and> map orderStatus (items tracked) = map orderStatus (items ord)"
    using carrier_webhook_idempotent[where db = "[?S]" and apiKey = None
        and secret = None and raw = ?T and now = 9000 and now' = 9500
        and signature = None and secret' = None and hmac_ok = True,
        THEN conjunct2, THEN conjunct1, THEN spec, THEN mp, OF t]
    by (elim exE conjE) (intro exI conjI; assumption)
  then obtain ord where "ord \<in> set [?S]" "map orderStatus (items tracked) = map orderStatus (items ord)"
    by (elim exE conjE)
  then have q3: "map orderStatus (items tracked) = [Str ''Ordered'']"
    by (simp add: sample_defs)
  from s r q1 q2 t q3 show ?thesis
    by (intro exI[of _ saved] exI[of _ second] exI[of _ tracked] conjI)
qed


subsection \<open>The shipping steps\<close>

text \<open>Steps 2 and 3 read the flags of the items: each needs an \<open>Ordered\<close> item with the
  previous flag, and refuses when one of these already has the step's own flag.\<close>

lemma assignAWBStep_gated:
  assumes "assignAWBStep db ordId token reply = Inr saved"
  shows "\<exists>ord. findOne (\<lambda>ord. orderId ord = ordId) db = Some ord \<and>
           (\<exists>i \<in> set (items ord). orderStatus i = Str ''Ordered'' \<and> flag_set adhocOrderCreated i) \<and>
           (\<forall>i \<in> set (items ord). orderStatus i = Str ''Ordered'' \<and> flag_set adhocOrderCreated i
               \<longrightarrow> \<not> flag_set awbAssigned i)"
proof (cases "findOne (\<lambda>ord. orderId ord = ordId) db")
  case None
  with assms show ?thesis
    by (simp add: assignAWBStep_def withTransaction_def split: if_splits)
next
  case (Some ord)
  define ts where "ts = filter (\<lambda>i. orderStatus i = Str ''Ordered'' \<and> flag_set adhocOrderCreated i) (items ord)"
  from assms Some have "ts \<noteq> []" "\<not> list_ex (flag_set awbAssigned) ts"
    by (simp_all add: assignAWBStep_def withTransaction_def Let_def ts_def split: if_splits)
  then show ?thesis
    using Some by (auto simp: ts_def filter_empty_conv list_ex_iff)
qed

lemma generatePickupStep_gated:
  assumes "generatePickupStep db ordId token reply now = Inr saved"
  shows "\<exists>ord. findOne (\<lambda>ord. orderId ord = ordId) db = Some ord \<and>
           (\<exists>i \<in> set (items ord). orderStatus i = Str ''Ordered'' \<and> flag_set awbAssigned i) \<and>
           (\<forall>i \<in> set (items ord). orderStatus i = Str ''Ordered'' \<and> flag_set awbAssigned i
               \<longrightarrow> \<not> flag_set pickupGenerated i)"
proof (cases "findOne (\<lambda>ord. orderId ord = ordId) db")
  case None
  with assms show ?thesis
    by (simp add: generatePickupStep_def withTransaction_def split: if_splits)
next
  case (Some ord)
  define ts where "ts = filter (\<lambda>i. orderStatus i = Str ''Ordered'' \<and> flag_set awbAssigned i) (items ord)"
  from assms Some have "ts \<noteq> []" "\<not> list_ex (flag_set pickupGenerated) ts"
    by (simp_all add: generatePickupStep_def withTransaction_def Let_def ts_def split: if_splits)
  then show ?thesis
    using Some by (auto simp: ts_def filter_empty_conv list_ex_iff)
qed

text \<open>Step 1 on an order with one \<open>Ordered\<close> item.\<close>

lemma createAdhocOrderStep_sample:
  assumes "items ord = [it]" "orderStatus it = Str ''Ordered''" "orderId ord = ''ORD-1''"
    and "valid_order ord"
  shows "createAdhocOrderStep [ord] ''ORD-1'' 10 10 10 1 (Some ''token'') (Some ''Warehouse'')
           (Reply \<lparr>ad_order_id = Some ''SR123'', ad_shipment_id = Some ''SH1'',
                   ad_courier_name = None\<rparr>) =
         Inr (ord\<lparr>items := [it\<lparr>shiprocket := Some
                               ((shiprocket_or_empty it)
                                  \<lparr>sr_orderId := Some ''SR123'',
                                   sr_shipmentId := Some ''SH1'',
                                   sr_trackingNumber := Some [],
                                   sr_courierName := None,
                                   sr_returnOrderId := Some [],
                                   sr_returnShipmentId := Some [],
                                   sr_returnTrackingNumber := Some [],
                                   sr_flags := (sr_flags (shiprocket_or_empty it))
                                     \<lparr>adhocOrderCreated := True\<rparr>\<rparr>)\<rparr>]\<rparr>)"
proof -
  have "valid_order (ord\<lparr>items := [it\<lparr>shiprocket := sr\<rparr>]\<rparr>)" for sr
    using assms(1,4) by (simp add: valid_order_def)
  with assms(1-3) show ?thesis
    by (simp add: createAdhocOrderStep_def falsy_def truthy_def withTransaction_def findOne_def
        order_shiprocket_def update_each_single order_save_or_valid)
qed

text \<open>
  C7. The claim: each step succeeds only if its own flag is not yet set, so that a second
  call of a completed step, step 1 included, is refused. Step 1 reads its flag from
  \<open>order.shiprocket\<close>, which the order schema does not have, and writes it to the items:
  called again on the saved order it succeeds again and creates a second carrier order.
\<close>

theorem createAdhocOrderStep_twice:
  "\<exists>first second.
     createAdhocOrderStep [sample_order [sample_item ''i1'' 1 [''Ordered'']]] ''ORD-1'' 10 10 10 1
       (Some ''token'') (Some ''Warehouse'')
       (Reply \<lparr>ad_order_id = Some ''SR123'', ad_shipment_id = Some ''SH1'',
               ad_courier_name = None\<rparr>) = Inr first \<and>
     map (flag_set adhocOrderCreated) (items first) = [True] \<and>
     createAdhocOrderStep (save [sample_order [sample_item ''i1'' 1 [''Ordered'']]] first)
       ''ORD-1'' 10 10 10 1 (Some ''token'') (Some ''Warehouse'')
       (Reply \<lparr>ad_order_id = Some ''SR123'', ad_shipment_id = Some ''SH1'',
               ad_courier_name = None\<rparr>) = Inr second \<and>
     map (flag_set adhocOrderCreated) (items second) = [True]"
proof -
  define it where "it = sample_item ''i1'' 1 [''Ordered'']"
  define ord where "ord = sample_order [it]"
  define mark where "mark = (\<lambda>i. i\<lparr>shiprocket := Some
                               ((shiprocket_or_empty i)
                                  \<lparr>sr_orderId := Some ''SR123'',
                                   sr_shipmentId := Some ''SH1'',
                                   sr_trackingNumber := Some [],
                                   sr_courierName := None,
                                   sr_returnOrderId := Some [],
                                   sr_returnShipmentId := Some [],
                                   sr_returnTrackingNumber := Some [],
                                   sr_flags := (sr_flags (shiprocket_or_empty i))
                                     \<lparr>adhocOrderCreated := True\<rparr>\<rparr>)\<rparr>)"
  define first where "first = ord\<lparr>items := [mark it]\<rparr>"
  define second where "second = first\<lparr>items := [mark (mark it)]\<rparr>"
  have it: "orderStatus it = Str ''Ordered''"
    by (simp add: it_def sample_item_def)
  have ord: "items ord = [it]" "orderId ord = ''ORD-1''"
    by (simp_all add: ord_def sample_order_def)
  have valid: "valid_order ord"
    by (simp add: ord_def it_def sample_defs valid_defs)
  have 1: "createAdhocOrderStep [ord] ''ORD-1'' 10 10 10 1 (Some ''token'') (Some ''Warehouse'')
             (Reply \<lparr>ad_order_id = Some ''SR123'', ad_shipment_id = Some ''SH1'',
                     ad_courier_name = None\<rparr>) = Inr first"
    unfolding first_def mark_def by (rule createAdhocOrderStep_sample[OF ord(1) it ord(2) valid])
  have mark: "orderStatus (mark i) = orderStatus i" "flag_set adhocOrderCreated (mark i)" for i
    by (simp_all add: mark_def flag_set_def)
  have first: "items first = [mark it]" "orderId first = ''ORD-1''"
    by (simp_all add: first_def ord)
  have valid1: "valid_order first"
    using valid ord(1) by (simp add: first_def mark_def valid_order_def)
  have saved: "save [ord] first = [first]"
    by (simp add: save_def first_def)
  have 2: "createAdhocOrderStep (save [ord] first) ''ORD-1'' 10 10 10 1 (Some ''token'')
             (Some ''Warehouse'')
             (Reply \<lparr>ad_order_id = Some ''SR123'', ad_shipment_id = Some ''SH1'',
                     ad_courier_name = None\<rparr>) = Inr second"
    unfolding saved second_def mark_def
    by (rule createAdhocOrderStep_sample[OF first(1)[unfolded mark_def]
          trans[OF mark(1)[unfolded mark_def] it] first(2) valid1])
  have f1: "map (flag_set adhocOrderCreated) (items first) = [True]"
    by (simp add: first mark)
  have f2: "map (flag_set adhocOrderCreated) (items second) = [True]"
    by (simp add: second_def mark)
  from 1 2 f1 f2 show ?thesis
    unfolding ord_def it_def by (intro exI[of _ first] exI[of _ second] conjI)
qed


subsection \<open>Handlers whose save always fails\<close>

lemma valid_item_id [simp]: "valid_item (it\<lparr>item_id := x\<rparr>) = valid_item it"
  by (simp add: valid_item_def)

lemma invalid_update:
  "k < length its \<Longrightarrow> \<not> valid_item y \<Longrightarrow> \<not> valid_order (ord\<lparr>items := its[k := y]\<rparr>)"
  by (auto simp: valid_order_def list_all_iff dest: set_update_memI)

lemma invalid_push: "\<not> valid_item obj \<Longrightarrow> \<not> valid_order (ord\<lparr>items := push newId its obj\<rparr>)"
  by (auto simp: valid_order_def push_def split: option.splits)

text \<open>
  \<open>processRefund\<close> writes the refund status \<open>Refunded\<close>, which is not of the enum, and
  \<open>cancelReturnRequest\<close> writes the \<open>RETURN_CANCELLED\<close> descriptor where the schema has a
  string: the save fails on either path and no request of these handlers is accepted.
\<close>

lemma processRefund_body_never_saves:
  "processRefund_body ord refundAmt q itemId now newId \<noteq> Inr saved"
proof (cases "findIndex (has_id itemId) (items ord)")
  case None
  then show ?thesis by (simp add: processRefund_body_def)
next
  case (Some k)
  from findIndex_Some[OF Some] have kl: "k < length (items ord)" by simp
  have bad: "\<not> valid_item (it\<lparr>refundStatus := Some ''Refunded''\<rparr>)" for it
    by (simp add: valid_item_def PaymentStatus_values_def)
  have 1: "\<not> valid_order (ord\<lparr>items := (items ord)[k := it\<lparr>orderStatus := a, refundAmount := b,
      refundStatus := Some ''Refunded'', refundProcessedAt := c, statusHistory := d\<rparr>]\<rparr>)" for it a b c d
    by (rule invalid_update[OF kl]) (simp add: valid_item_def PaymentStatus_values_def)
  have 2: "\<not> valid_order (ord\<lparr>items := push newId its (it\<lparr>quantity := a0, orderStatus := a,
      refundAmount := b, refundStatus := Some ''Refunded'', refundProcessedAt := c,
      statusHistory := d\<rparr>)\<rparr>)" for it its a0 a b c d
    by (rule invalid_push) (simp add: valid_item_def PaymentStatus_values_def)
  show ?thesis
    unfolding processRefund_body_def require_transition_def Let_def
    by (simp add: Some order_save_def order_save_or_def 1 2 split: sum.splits)
qed

lemma processRefund_never_saves: "processRefund db refundAmt q itemId now newId \<noteq> Inr saved"
  by (simp add: processRefund_def withTransaction_def processRefund_body_never_saves
      split: option.splits)

lemma cancelReturnRequest_body_never_saves:
  "cancelReturnRequest_body ord itemId qty now newId \<noteq> Inr saved"
proof (cases "findIndex (has_id itemId) (items ord)")
  case None
  then show ?thesis by (simp add: cancelReturnRequest_body_def)
next
  case (Some k)
  from findIndex_Some[OF Some] have kl: "k < length (items ord)" by simp
  have 1: "\<not> valid_order (ord\<lparr>items := (items ord)[k := it\<lparr>orderStatus := Descriptor s,
      returnCancelledAt := c, statusHistory := d, returnId := e, returnRequestedAt := f,
      returnRequestNote := g\<rparr>]\<rparr>)" for it s c d e f g
    by (rule invalid_update[OF kl]) (simp add: valid_item_def)
  have 2: "\<not> valid_order (ord\<lparr>items := push newId its (it\<lparr>item_id := a0, quantity := a1,
      orderStatus := Descriptor s, returnCancelledAt := c, statusHistory := d, returnId := e,
      returnRequestedAt := f, returnRequestNote := g\<rparr>)\<rparr>)" for it its a0 a1 s c d e f g
    by (rule invalid_push) (simp add: valid_item_def)
  show ?thesis
    unfolding cancelReturnRequest_body_def require_transition_def Let_def
    by (simp add: Some order_save_def order_save_or_def 1 2 split: sum.splits)
qed

lemma cancelReturnRequest_never_saves:
  "cancelReturnRequest db reqUser itemId qty now newId \<noteq> Inr saved"
  by (simp add: cancelReturnRequest_def withTransaction_def cancelReturnRequest_body_never_saves
      split: option.splits)

subsection \<open>Identity of a split-off item\<close>

lemma cancelOrderItem_sibling:
  assumes "cancelOrderItem_body ord itemId qty now newId = Inr ord'"
    and "findIndex (has_id itemId) (items ord) = Some k"
    and "qty < quantity (items ord ! k)"
  shows "item_id (last (items ord')) = Some newId \<and>
         statusHistory (last (items ord')) =
           statusHistory (items ord ! k) @
             [\<lparr>status = Str ''Cancelled'', entry_note = Some (Str ''Cancelled by user''),
               changedAt = Some now, timestamp = None\<rparr>] \<and>
         statusHistory (items ord' ! k) = statusHistory (items ord ! k)"
proof -
  from assms(2) have "k < length (items ord)" by (simp add: findIndex_Some)
  with assms show ?thesis
    unfolding cancelOrderItem_body_def require_transition_def Let_def
    by (auto split: body_splits simp: push_def nth_append order_save_Inr)
qed

lemma processReturnCancel_sibling:
  assumes "processReturnCancel_body ord itemId q now newId = Inr ord'"
    and "findIndex (has_id itemId) (items ord) = Some k"
    and "quantity_or_full q (items ord ! k) < quantity (items ord ! k)"
  shows "item_id (last (items ord')) = Some itemId \<and> item_id (items ord' ! k) = Some itemId"
proof -
  from findIndex_Some[OF assms(2)]
  have "k < length (items ord)" "item_id (items ord ! k) = Some itemId"
    by (simp_all add: has_id_def)
  with assms show ?thesis
    unfolding processReturnCancel_body_def require_transition_def Let_def
    by (auto split: body_splits simp: push_def nth_append order_save_Inr)
qed

lemma js_minus_3_1: "js_minus 3 1 = 2"
  by code_simp

lemmas handler_eval =
  withTransaction_def findOne_def has_id_def push_def require_transition_def
  quantity_or_full_def canTransition_eval

text \<open>
  C6. The claim: on every splitting path the sibling has a fresh identifier, different
  from its parent's. The cancel and return-request paths delete \<open>_id\<close> from the copy
  (\<open>cancelOrderItem_sibling\<close>); the return-cancel paths of the admin and of the user
  spread \<open>item.toObject()\<close> and keep it (\<open>processReturnCancel_sibling\<close>), as the refund
  path would. Cancelling the return of one of three pieces leaves two items with the
  identifier \<open>i1\<close>.
\<close>

theorem processReturnCancelByAdmin_sibling_shares_id:
  "\<exists>saved.
     processReturnCancelByAdmin
       [sample_order
          [sample_item ''i1'' 3 [''Ordered'', ''Shipped'', ''Delivered'', ''Return Requested'']]]
       ''i1'' (Some 1) 2000 ''n1'' = Inr saved \<and>
     map item_id (items saved) = [Some ''i1'', Some ''i1''] \<and>
     map quantity (items saved) = [2, 1] \<and>
     map orderStatus (items saved) = [Str ''Return Requested'', Str ''Return Cancelled'']"
  apply (simp add: processReturnCancelByAdmin_def processReturnCancel_body_def handler_eval
      sample_defs js_minus_3_1)
  apply (simp add: order_save_Inr valid_defs)
  done

subsection \<open>Quantities that are not whole numbers\<close>

text \<open>
  The return-cancel handlers take the body's \<open>quantity\<close> as it comes. On a part of the
  quantity of an item in \<open>Return Requested\<close> the admin's handler splits the item.
\<close>

lemma processReturnCancelByAdmin_partial:
  assumes k: "findIndex (has_id itemId) (items ord) = Some k" and "itemId \<noteq> []"
    and st: "orderStatus (items ord ! k) = Str ''Return Requested''"
    and q: "0 < q" "q < quantity (items ord ! k)"
    and saved: "saved = ord\<lparr>items :=
          push newId ((items ord)[k := (items ord ! k)\<lparr>quantity := js_minus (quantity (items ord ! k)) q\<rparr>])
            ((items ord ! k)\<lparr>quantity := q, orderStatus := Str ''Return Cancelled'',
               statusHistory := statusHistory (items ord ! k) @
                 [\<lparr>status = Str ''Return Cancelled'',
                   entry_note = Some (Str ''Return request cancelled by admin''),
                   changedAt = Some now, timestamp = None\<rparr>],
               returnCancelledAt := Some now\<rparr>)\<rparr>"
    and valid: "valid_order saved"
  shows "processReturnCancelByAdmin [ord] itemId (Some q) now newId = Inr saved"
proof -
  from findIndex_Some[OF k] have "list_ex (has_id itemId) (items ord)"
    by (auto simp: list_ex_iff)
  with assms show ?thesis
    by (simp add: processReturnCancelByAdmin_def processReturnCancel_body_def withTransaction_def
        findOne_def require_transition_def quantity_or_full_def canTransition_eval Let_def
        order_save_valid)
qed

text \<open>The numbers that the literals \<open>2.1\<close> and \<open>1.2\<close> denote, and the differences taken.\<close>

lemma literal_2_1: "fl (21 / 10) = 4728779608739021 / 2251799813685248"
  by code_simp

lemma literal_1_2: "fl (6 / 5) = 5404319552844595 / 4503599627370496"
  by code_simp

lemma minus_6_2_1:
  "js_minus 6 (4728779608739021 / 2251799813685248) = 8782019273372467 / 2251799813685248"
  by code_simp

lemma minus_3_9_1_2:
  "js_minus (8782019273372467 / 2251799813685248) (5404319552844595 / 4503599627370496) =
     3039929748475085 / 1125899906842624"
  by code_simp

lemma sums_after_two_splits:
  "foldl js_plus 0 [3039929748475085 / 1125899906842624, 4728779608739021 / 2251799813685248,
      5404319552844595 / 4503599627370496] = 6755399441055745 / 1125899906842624"
  "js_plus (3039929748475085 / 1125899906842624) (5404319552844595 / 4503599627370496) =
     2195504818343117 / 562949953421312"
  by code_simp+

text \<open>
  C3. The claim: the quantity that leaves an item at a partial transition arrives at its
  sibling, so the quantities of a lineage always add up to the quantity \<open>Q\<close> it began
  with. The cancel and return-request handlers accept whole quantities only
  (\<open>Number.isInteger\<close>); the return-cancel handlers and the refund handler take any
  positive number. An item of 6 pieces whose return is cancelled for 2.1 and then for 1.2
  pieces is left with the quantities 2.7000000000000006, 2.1 and 1.2: after the second
  split the parent and its new sibling add up, in the arithmetic of the program, to
  3.9000000000000004 and not to the 3.9 the parent had, and the three quantities add up to
  6.000000000000001, neither in that arithmetic nor exactly to 6.
\<close>

theorem return_cancel_of_fractions_loses_quantity:
  "\<exists>first second.
     processReturnCancelByAdmin
       [sample_order
          [sample_item ''i1'' 6 [''Ordered'', ''Shipped'', ''Delivered'', ''Return Requested'']]]
       ''i1'' (Some (fl (21 / 10))) 2000 ''n1'' = Inr first \<and>
     processReturnCancelByAdmin
       (save [sample_order
          [sample_item ''i1'' 6 [''Ordered'', ''Shipped'', ''Delivered'', ''Return Requested'']]]
          first)
       ''i1'' (Some (fl (6 / 5))) 3000 ''n2'' = Inr second \<and>
     map orderStatus (items second) =
       [Str ''Return Requested'', Str ''Return Cancelled'', Str ''Return Cancelled''] \<and>
     map quantity (items first) =
       [8782019273372467 / 2251799813685248, 4728779608739021 / 2251799813685248] \<and>
     map quantity (items second) =
       [3039929748475085 / 1125899906842624, 4728779608739021 / 2251799813685248,
        5404319552844595 / 4503599627370496] \<and>
     js_plus (quantity (items second ! 0)) (quantity (items second ! 2)) \<noteq>
       quantity (items first ! 0) \<and>
     foldl js_plus 0 (map quantity (items second)) \<noteq> 6 \<and>
     sum_list (map quantity (items second)) \<noteq> 6"
proof -
  define it where
    "it = sample_item ''i1'' 6 [''Ordered'', ''Shipped'', ''Delivered'', ''Return Requested'']"
  define ord where "ord = sample_order [it]"
  define entry where "entry = (\<lambda>now.
     \<lparr>status = Str ''Return Cancelled'',
      entry_note = Some (Str ''Return request cancelled by admin''),
      changedAt = Some now, timestamp = None\<rparr>)"
  define it1 where "it1 = it\<lparr>quantity := 8782019273372467 / 2251799813685248\<rparr>"
  define s1 where "s1 = it\<lparr>quantity := 4728779608739021 / 2251799813685248,
     orderStatus := Str ''Return Cancelled'',
     statusHistory := statusHistory it @ [entry 2000], returnCancelledAt := Some 2000\<rparr>"
  define it2 where "it2 = it1\<lparr>quantity := 3039929748475085 / 1125899906842624\<rparr>"
  define s2 where "s2 = it1\<lparr>quantity := 5404319552844595 / 4503599627370496,
     orderStatus := Str ''Return Cancelled'',
     statusHistory := statusHistory it1 @ [entry 3000], returnCancelledAt := Some 3000\<rparr>"
  define first where "first = ord\<lparr>items := [it1, s1]\<rparr>"
  define second where "second = first\<lparr>items := [it2, s1, s2]\<rparr>"
  have it: "item_id it = Some ''i1''" "orderStatus it = Str ''Return Requested''"
    "quantity it = 6" "valid_item it"
    by (simp_all add: it_def sample_defs valid_defs)
  have it1: "item_id it1 = Some ''i1''" "orderStatus it1 = Str ''Return Requested''"
    "quantity it1 = 8782019273372467 / 2251799813685248" "valid_item it1"
    using it by (simp_all add: it1_def valid_item_def)
  have frame: "valid_order (ord\<lparr>items := []\<rparr>)"
    by (simp add: ord_def sample_order_def valid_defs)
  have v1: "valid_order first"
    using frame it(4) it1(4)
    by (simp add: first_def s1_def entry_def valid_order_def valid_item_def valid_entry_def
        ORDER_STATUS_VALUES_def status_defs)
  have v2: "valid_order second"
    using v1 it1(4)
    by (simp add: second_def first_def it2_def s2_def entry_def valid_order_def valid_item_def
        valid_entry_def ORDER_STATUS_VALUES_def status_defs)
  have run1: "processReturnCancelByAdmin [ord] ''i1'' (Some (fl (21 / 10))) 2000 ''n1'' = Inr first"
    unfolding literal_2_1
    by (rule processReturnCancelByAdmin_partial[where k = 0, OF _ _ _ _ _ _ v1])
      (simp_all add: ord_def sample_order_def has_id_def it first_def it1_def s1_def entry_def
        push_def minus_6_2_1)
  have saved: "save [ord] first = [first]"
    by (simp add: save_def first_def)
  have run2: "processReturnCancelByAdmin (save [ord] first) ''i1'' (Some (fl (6 / 5))) 3000 ''n2''
      = Inr second"
    unfolding literal_1_2 saved
    by (rule processReturnCancelByAdmin_partial[where k = 0, OF _ _ _ _ _ _ v2])
      (simp_all add: first_def has_id_def it1 second_def it2_def s2_def entry_def push_def
        minus_3_9_1_2)
  have q1: "map quantity (items first) =
      [8782019273372467 / 2251799813685248, 4728779608739021 / 2251799813685248]"
    by (simp add: first_def it1_def s1_def)
  have q2: "map quantity (items second) =
      [3039929748475085 / 1125899906842624, 4728779608739021 / 2251799813685248,
       5404319552844595 / 4503599627370496]"
    by (simp add: second_def it2_def s1_def s2_def)
  have st2: "map orderStatus (items second) =
      [Str ''Return Requested'', Str ''Return Cancelled'', Str ''Return Cancelled'']"
    by (simp add: second_def it2_def s1_def s2_def it1)
  have c1: "js_plus (quantity (items second ! 0)) (quantity (items second ! 2)) \<noteq>
      quantity (items first ! 0)"
    by (simp add: second_def first_def it2_def s2_def it1_def sums_after_two_splits)
  have c2: "foldl js_plus 0 (map quantity (items second)) \<noteq> 6"
    unfolding q2 sums_after_two_splits by simp
  have c3: "sum_list (map quantity (items second)) \<noteq> 6"
    unfolding q2 by simp
  from run1 run2 st2 q1 q2 c1 c2 c3 show ?thesis
    unfolding ord_def it_def
    by (intro exI[of _ first] exI[of _ second] conjI)
qed

subsection \<open>The return window\<close>

lemma day_ms_pos: "0 < day_ms"
  by (simp add: day_ms_def)

text \<open>In a zone without daylight saving the days are counted between calendar days.\<close>

lemma setHours0_fixed: "setHours0 (fixed_zone tz) t = (t + tz) div day_ms * day_ms - tz"
proof -
  have "(t + tz) div day_ms * day_ms + (t + tz) mod day_ms = t + tz"
    by simp
  then have "t - (t + tz) mod day_ms = (t + tz) div day_ms * day_ms - tz"
    by linarith
  then show ?thesis
    by (simp add: setHours0_def fixed_zone_def Let_def)
qed

lemma daysPassed_fixed:
  "daysPassed (fixed_zone tz) now delivered = (now + tz) div day_ms - (delivered + tz) div day_ms"
proof -
  have "setHours0 (fixed_zone tz) now - setHours0 (fixed_zone tz) delivered =
          ((now + tz) div day_ms - (delivered + tz) div day_ms) * day_ms"
    by (simp add: setHours0_fixed algebra_simps)
  then show ?thesis
    using day_ms_pos by (simp add: daysPassed_def)
qed

lemma daysPassed_fixed_exact: "daysPassed (fixed_zone tz) (delivered + n * day_ms) delivered = n"
proof -
  have e: "delivered + n * day_ms + tz = (delivered + tz) + n * day_ms"
    by simp
  have nz: "day_ms \<noteq> 0"
    using day_ms_pos by simp
  have "((delivered + tz) + n * day_ms) div day_ms = n + (delivered + tz) div day_ms"
    by (rule div_mult_self1[OF nz])
  then have "(delivered + n * day_ms + tz) div day_ms = n + (delivered + tz) div day_ms"
    by (simp only: e)
  then show ?thesis
    unfolding daysPassed_fixed by linarith
qed

lemma daysPassed_fixed_mono:
  "now \<le> now' \<Longrightarrow>
     daysPassed (fixed_zone tz) now delivered \<le> daysPassed (fixed_zone tz) now' delivered"
  using day_ms_pos by (simp add: daysPassed_fixed zdiv_mono1)

lemma daysPassed_fixed_late:
  "delivered + n * day_ms \<le> now \<Longrightarrow> n \<le> daysPassed (fixed_zone tz) now delivered"
  using daysPassed_fixed_mono[of "delivered + n * day_ms" now tz delivered]
    daysPassed_fixed_exact[of tz delivered n]
  by simp

lemma canTransition_to_return_requested:
  "canTransition c ''Return Requested'' = Inr True \<longleftrightarrow> c = ''Delivered''"
  by (simp add: canTransition_eval)

lemma property_key_Delivered: "property_key v = ''Delivered'' \<longleftrightarrow> v = Str ''Delivered''"
  by (cases v) (simp_all add: member_text_def)

lemma canTransition_Delivered_return:
  "canTransition ''Delivered'' ''Return Requested'' = Inr True"
  by (simp add: canTransition_to_return_requested)

text \<open>What an accepted return request says of the item, in any zone.\<close>

lemma returnOrderItem_body_success:
  assumes "returnOrderItem_body db ord itemId qty nt z now draws newId = Some (Inr ord')"
    and "findIndex (has_id itemId) (items ord) = Some k"
  shows "orderStatus (items ord ! k) = Str ''Delivered'' \<and>
         (\<exists>entry delivered.
            findOne (\<lambda>s. status s = Str ''Delivered'') (statusHistory (items ord ! k)) = Some entry \<and>
            changedAt entry = Some delivered \<and> daysPassed z now delivered \<le> 7)"
proof -
  let ?it = "items ord ! k"
  from assms have can: "canTransition (property_key (orderStatus ?it)) ''Return Requested'' = Inr True"
    unfolding returnOrderItem_body_def Let_def
    by (auto split: body_splits)
  then have st: "orderStatus ?it = Str ''Delivered''"
    by (simp add: canTransition_to_return_requested property_key_Delivered)
  from assms can obtain delivered where
    d: "Option.bind (findOne (\<lambda>s. status s = Str ''Delivered'') (statusHistory ?it)) changedAt
          = Some delivered" and w: "daysPassed z now delivered \<le> 7"
    unfolding returnOrderItem_body_def Let_def
    by (auto split: body_splits)
  from d obtain entry where
    "findOne (\<lambda>s. status s = Str ''Delivered'') (statusHistory ?it) = Some entry"
    "changedAt entry = Some delivered"
    by (auto simp: bind_eq_Some_conv)
  with st w show ?thesis by blast
qed

lemma returnOrderItem_body_missing:
  assumes "findIndex (has_id itemId) (items ord) = Some k"
    and "orderStatus (items ord ! k) = Str ''Delivered''"
    and "qty \<le> quantity (items ord ! k)"
    and "Option.bind (findOne (\<lambda>s. status s = Str ''Delivered'') (statusHistory (items ord ! k)))
           changedAt = None"
  shows "returnOrderItem_body db ord itemId qty nt z now draws newId =
           Some (Inl (Failure 500 (Message ''Delivery date missing in history'')))"
  using assms
  by (simp add: returnOrderItem_body_def canTransition_Delivered_return Let_def)

lemma returnOrderItem_body_expired:
  assumes "findIndex (has_id itemId) (items ord) = Some k"
    and "orderStatus (items ord ! k) = Str ''Delivered''"
    and "qty \<le> quantity (items ord ! k)"
    and "Option.bind (findOne (\<lambda>s. status s = Str ''Delivered'') (statusHistory (items ord ! k)))
           changedAt = Some delivered"
    and "7 < daysPassed z now delivered"
  shows "returnOrderItem_body db ord itemId qty nt z now draws newId =
           Some (Inl (Failure 500 (Return_window_expired (daysPassed z now delivered))))"
  using assms
  by (simp add: returnOrderItem_body_def canTransition_Delivered_return Let_def)

text \<open>
  Without daylight saving, a request eight times 24 hours or more after the delivery is
  refused, whatever the offset.
\<close>

lemma returnOrderItem_body_fixed_expired:
  assumes "findIndex (has_id itemId) (items ord) = Some k"
    and "orderStatus (items ord ! k) = Str ''Delivered''"
    and "qty \<le> quantity (items ord ! k)"
    and "Option.bind (findOne (\<lambda>s. status s = Str ''Delivered'') (statusHistory (items ord ! k)))
           changedAt = Some delivered"
    and "delivered + 8 * day_ms \<le> now"
  shows "\<exists>days. 8 \<le> days \<and>
           returnOrderItem_body db ord itemId qty nt (fixed_zone tz) now draws newId =
             Some (Inl (Failure 500 (Return_window_expired days)))"
proof -
  from assms(5) have "8 \<le> daysPassed (fixed_zone tz) now delivered"
    by (rule daysPassed_fixed_late)
  with returnOrderItem_body_expired[OF assms(1-4), of "fixed_zone tz" now db nt draws newId]
  show ?thesis by auto
qed

lemma js_minus_2_1: "js_minus 2 1 = 1"
  by code_simp

lemma whole_1: "not_an_integer 1 = False"
  by (simp add: not_an_integer_def Number_isInteger_def)

lemma new_york_days:
  "daysPassed new_york_march_2025 (1740893400000 + 8 * day_ms) 1740893400000 = 7"
  by (simp add: daysPassed_def setHours0_def new_york_march_2025_def day_ms_def)

lemma fixed_days:
  "daysPassed (fixed_zone (- 18000000)) (1740893400000 + 8 * day_ms) 1740893400000 = 8"
  by (rule daysPassed_fixed_exact)

lemma return_sample_found:
  "findOne (\<lambda>ord. list_ex (has_id ''i1'') (items ord) \<and> user ord = ''u1'')
     [sample_order [delivered_item ''i1'' 2 d]] = Some (sample_order [delivered_item ''i1'' 2 d])"
  "findIndex (has_id ''i1'') (items (sample_order [delivered_item ''i1'' 2 d])) = Some 0"
  "orderStatus (items (sample_order [delivered_item ''i1'' 2 d]) ! 0) = Str ''Delivered''"
  "quantity (items (sample_order [delivered_item ''i1'' 2 d]) ! 0) = 2"
  "Option.bind (findOne (\<lambda>s. status s = Str ''Delivered'')
      (statusHistory (items (sample_order [delivered_item ''i1'' 2 d]) ! 0))) changedAt = Some d"
  by (simp_all add: findOne_def has_id_def sample_defs delivered_item_def)

text \<open>
  C5. The claim: a return asked for 8 or more days after the delivery is refused. The
  handler counts \<open>Math.floor\<close> of the difference of the two local midnights in days,
  and a local day is 23 hours long when daylight saving time begins. In the zone
  America/New_York an item delivered on 2 March 2025 at 00:30 and returned on 10 March at
  01:30, 8 times 24 hours later and on the eighth calendar day, is counted 7 days and
  accepted; the same request in a zone always five hours behind UTC is counted 8 days and
  refused.
\<close>

theorem return_accepted_eight_days_after_delivery:
  "\<exists>saved.
     returnOrderItem [sample_order [delivered_item ''i1'' 2 1740893400000]]
       ''u1'' ''i1'' 1 ''Wrong size'' new_york_march_2025 (1740893400000 + 8 * day_ms)
       [''RET-1''] ''n1'' = Some (Inr saved) \<and>
     map orderStatus (items saved) = [Str ''Delivered'', Str ''Return Requested''] \<and>
     daysPassed new_york_march_2025 (1740893400000 + 8 * day_ms) 1740893400000 = 7 \<and>
     returnOrderItem [sample_order [delivered_item ''i1'' 2 1740893400000]]
       ''u1'' ''i1'' 1 ''Wrong size'' (fixed_zone (- 18000000)) (1740893400000 + 8 * day_ms)
       [''RET-1''] ''n1'' = Some (Inl (Failure 500 (Return_window_expired 8)))"
proof -
  let ?S = "sample_order [delivered_item ''i1'' 2 1740893400000]"
  let ?now = "1740893400000 + 8 * day_ms"
  have late: "returnOrderItem [?S] ''u1'' ''i1'' 1 ''Wrong size'' (fixed_zone (- 18000000)) ?now
      [''RET-1''] ''n1'' = Some (Inl (Failure 500 (Return_window_expired 8)))"
    using returnOrderItem_body_expired[OF return_sample_found(2,3) _ return_sample_found(5),
        where qty = 1 and z = "fixed_zone (- 18000000)" and now = ?now and db = "[?S]"
          and nt = "''Wrong size''" and draws = "[''RET-1'']" and newId = "''n1''"]
    by (simp add: returnOrderItem_def withTransaction_def return_sample_found whole_1 fixed_days)
  have "\<exists>saved. returnOrderItem [?S] ''u1'' ''i1'' 1 ''Wrong size'' new_york_march_2025 ?now
      [''RET-1''] ''n1'' = Some (Inr saved) \<and>
      map orderStatus (items saved) = [Str ''Delivered'', Str ''Return Requested'']"
    apply (simp add: returnOrderItem_def withTransaction_def return_sample_found whole_1)
    apply (simp add: returnOrderItem_body_def return_sample_found canTransition_Delivered_return
        new_york_days Let_def returnId_exists_def)
    apply (simp add: sample_defs delivered_item_def push_def js_minus_2_1 order_save_Inr)
    apply (simp add: valid_defs)
    done
  with late new_york_days show ?thesis
    by (elim exE conjE) (intro exI conjI; assumption)
qed

text \<open>
  The days are counted between calendar days: delivered at 23:00 (UTC, no offset), an
  item can no longer be returned seven days and two hours later.
\<close>

lemma return_refused_on_the_eighth_calendar_day:
  "returnOrderItem [sample_order [delivered_item ''i1'' 2 (20000 * day_ms + 82800000)]]
     ''u1'' ''i1'' 1 ''Wrong size'' (fixed_zone 0) (20000 * day_ms + 82800000 + 7 * day_ms + 7200000)
     [''RET-1''] ''n1'' = Some (Inl (Failure 500 (Return_window_expired 8)))"
proof -
  define d :: int where "d = 20000 * day_ms + 82800000"
  define now :: int where "now = 20000 * day_ms + 82800000 + 7 * day_ms + 7200000"
  have days: "daysPassed (fixed_zone 0) now d = 8"
    by (simp add: daysPassed_fixed day_ms_def now_def d_def)
  have "returnOrderItem [sample_order [delivered_item ''i1'' 2 d]]
     ''u1'' ''i1'' 1 ''Wrong size'' (fixed_zone 0) now [''RET-1''] ''n1'' =
     Some (Inl (Failure 500 (Return_window_expired 8)))"
    using returnOrderItem_body_expired[OF return_sample_found(2,3)[of d] _
        return_sample_found(5)[of d],
        where qty = 1 and z = "fixed_zone 0" and now = now
          and db = "[sample_order [delivered_item ''i1'' 2 d]]"
          and nt = "''Wrong size''" and draws = "[''RET-1'']" and newId = "''n1''"]
    by (simp add: returnOrderItem_def withTransaction_def return_sample_found whole_1 days)
  then show ?thesis
    by (simp only: d_def now_def)
qed

subsection \<open>Refund requests\<close>

lemma findIndex_update_same:
  "findIndex P xs = Some k \<Longrightarrow> P y \<Longrightarrow> findIndex P (xs[k := y]) = Some k"
proof (induction xs arbitrary: k)
  case Nil
  then show ?case by simp
next
  case (Cons x xs)
  then show ?case by (cases k) (auto split: if_splits)
qed

lemma find_map_option: "List.find P (map f xs) = map_option f (List.find (P \<circ> f) xs)"
  by (induction xs) simp_all

lemma findOne_save:
  assumes "findOne (\<lambda>ord. order_id ord = key) db = Some ord" and "order_id ord' = key"
  shows "findOne (\<lambda>ord. order_id ord = key) (save db ord') = Some ord'"
proof -
  have "(\<lambda>ord. order_id ord = key) \<circ> (\<lambda>ord. if order_id ord = order_id ord' then ord' else ord)
          = (\<lambda>ord. order_id ord = key)"
    using assms(2) by (auto simp: fun_eq_iff)
  moreover have "order_id ord = key"
    using findOne_Some[OF assms(1)] by simp
  ultimately show ?thesis
    using assms by (simp add: findOne_def save_def find_map_option)
qed

text \<open>
  \<open>requestRefund\<close> computes its refund amount from \<open>item.amount.totalAmount\<close>, which
  does not exist: the amount is \<open>NaN\<close>, the save fails, and no request is ever accepted.
\<close>

lemma requestRefund_never_saves:
  "requestRefund db reqUser ordId itemId qty details nt now \<noteq> Inr saved"
proof -
  have bad: "\<not> valid_order (ord\<lparr>items := (items ord)[k := it\<lparr>refundAmount := Some NaN,
      refundStatus := a, refundRequestedAt := b, refundRequestNote := c,
      refundAccountDetails := d, statusHistory := e\<rparr>]\<rparr>)"
    if "findIndex (has_id itemId) (items ord) = Some k" for ord k it a b c d e
    using findIndex_Some[OF that]
    by (intro invalid_update) (simp_all add: valid_item_def)
  show ?thesis
    unfolding requestRefund_def Let_def
    by (auto split: body_splits simp: order_save_or_def bad)
qed

text \<open>
  \<open>rejectRefundRequest\<close> writes the refund status \<open>REJECTED\<close>, which is not of the enum
  \<open>Object.values(PaymentStatus)\<close>: the save fails, and no request is ever rejected.
\<close>

lemma rejectRefundRequest_never_saves:
  "rejectRefundRequest db admin ordKey itemId rejectionReason now \<noteq> Inr saved"
proof -
  have bad: "\<not> valid_order (ord\<lparr>items := (items ord)[k := it\<lparr>refundStatus := Some ''REJECTED'',
      refundRejectedAt := a, refundRejectedBy := b, refundRejectionReason := c,
      statusHistory := e\<rparr>]\<rparr>)"
    if "findIndex (has_id itemId) (items ord) = Some k" for ord k it a b c e
    using findIndex_Some[OF that]
    by (intro invalid_update) (simp_all add: valid_item_def PaymentStatus_values_def)
  show ?thesis
    unfolding rejectRefundRequest_def Let_def
    by (auto split: body_splits simp: order_save_or_def bad)
qed

text \<open>Approving succeeds only on a request that is \<open>PENDING\<close>, and closes it.\<close>

lemma approveRefundRequest_accepted:
  assumes "approveRefundRequest db admin ordKey itemId refundAmt now = Inr ord'"
  shows "\<exists>ord k. findOne (\<lambda>ord. order_id ord = ordKey) db = Some ord \<and>
           order_id ord' = ordKey \<and>
           findIndex (has_id itemId) (items ord) = Some k \<and>
           findIndex (has_id itemId) (items ord') = Some k \<and>
           refundRequestedAt (items ord ! k) \<noteq> None \<and>
           refundStatus (items ord ! k) = Some ''PENDING'' \<and>
           refundStatus (items ord' ! k) = Some ''REFUNDED'' \<and>
           refundApprovedAt (items ord' ! k) = Some now"
proof -
  from assms obtain ord k it' where
    found: "findOne (\<lambda>ord. order_id ord = ordKey) db = Some ord" and
    idx: "findIndex (has_id itemId) (items ord) = Some k" and
    pending: "refundRequestedAt (items ord ! k) \<noteq> None"
      "refundStatus (items ord ! k) = Some ''PENDING''" and
    res: "ord' = ord\<lparr>items := (items ord)[k := it']\<rparr>" and
    it': "item_id it' = item_id (items ord ! k)" "refundStatus it' = Some ''REFUNDED''"
      "refundApprovedAt it' = Some now"
    unfolding approveRefundRequest_def Let_def
    by (auto split: body_splits simp: order_save_or_Inr)
  from idx have k: "k < length (items ord)" and hid: "has_id itemId (items ord ! k)"
    by (simp_all add: findIndex_Some)
  from hid it'(1) have "has_id itemId it'"
    by (simp add: has_id_def)
  then have idx': "findIndex (has_id itemId) (items ord') = Some k"
    using findIndex_update_same[OF idx] by (simp add: res)
  have "order_id ord = ordKey" using findOne_Some[OF found] by simp
  then have oid: "order_id ord' = ordKey" by (simp add: res)
  from k it'(2,3) have after: "refundStatus (items ord' ! k) = Some ''REFUNDED''"
    "refundApprovedAt (items ord' ! k) = Some now" by (simp_all add: res)
  from found oid idx idx' pending after show ?thesis by blast
qed

lemma approveRefundRequest_once:
  assumes "approveRefundRequest db admin ordKey itemId refundAmt now = Inr approved"
  shows "approveRefundRequest (save db approved) admin' ordKey itemId amount' now' \<noteq> Inr saved"
proof -
  from approveRefundRequest_accepted[OF assms] obtain ord k where
    f: "findOne (\<lambda>ord. order_id ord = ordKey) db = Some ord" "order_id approved = ordKey"
      "findIndex (has_id itemId) (items approved) = Some k"
      "refundStatus (items approved ! k) = Some ''REFUNDED''"
    by blast
  from findOne_save[OF f(1,2)] f(3,4) show ?thesis
    by (simp add: approveRefundRequest_def Let_def)
qed


end
